theory Spec2Isabelle
  imports Complex_Main "HOL-Library.Word"
begin

section \<open>Machine types\<close>

text \<open>
  \<^verbatim>\<open>int64_t\<close> and \<^verbatim>\<open>size_t\<close> are 64 bits wide. A word carries the bits;
  \<open>sint\<close> reads it as an \<^verbatim>\<open>int64_t\<close>, \<open>unat\<close> as a \<^verbatim>\<open>size_t\<close>. In a product
  with a \<^verbatim>\<open>size_t\<close> operand an \<^verbatim>\<open>int64_t\<close> is converted to \<^verbatim>\<open>size_t\<close>, which keeps
  its bits, and the product wraps modulo \<open>2 ^ 64\<close>: that is word multiplication.
  A device pointer is the address it holds; a byte is 8 bits.
\<close>

type_synonym int64_t = "64 word"
type_synonym size_t = "64 word"
type_synonym byte = "8 word"
type_synonym addr = nat

section \<open>String building\<close>

text \<open>
  \<^verbatim>\<open>operator<<\<close> of an output stream on a signed integer, with the default
  formatting: decimal digits, most significant first, a minus sign in front of a
  negative value, no padding and no separators.
\<close>

definition digit_char :: "nat \<Rightarrow> char" where
  "digit_char d = ''0123456789'' ! d"

fun digits :: "nat \<Rightarrow> string" where
  "digits x = (if x < 10 then [digit_char x] else digits (x div 10) @ [digit_char (x mod 10)])"

declare digits.simps [simp del]

definition show_int :: "int \<Rightarrow> string" where
  "show_int i = (if i < 0 then CHR ''-'' # digits (nat (- i)) else digits (nat i))"

text \<open>
  Modelled from the spec: \<^verbatim>\<open>c10::str\<close> (declared in \<^verbatim>\<open>c10/util/StringUtil.h\<close>, which
  is not among the sources). The spec describes the signature as the concatenation of
  its parts; \<^verbatim>\<open>c10::str\<close> writes each of its arguments to one string stream, in
  order, and returns the stream's contents. The arguments that occur here are a
  \<^verbatim>\<open>char\<close> (written as that one character), a string literal (written as it is)
  and an \<^verbatim>\<open>int64_t\<close> (written in decimal).
\<close>

datatype str_arg = ArgChar char | ArgLit string | ArgInt64 int64_t

fun ostream_put :: "str_arg \<Rightarrow> string" where
  "ostream_put (ArgChar ch) = [ch]"
| "ostream_put (ArgLit s) = s"
| "ostream_put (ArgInt64 v) = show_int (sint v)"

definition c10_str :: "str_arg list \<Rightarrow> string" where
  "c10_str args = concat (map ostream_put args)"

section \<open>The descriptors\<close>

text \<open>
  \<^verbatim>\<open>template <typename T>\<close>: what the code uses of the element type \<^verbatim>\<open>T\<close> is
  \<^verbatim>\<open>sizeof(T)\<close> and, in the numerical check, the value an element has once the
  tensor is converted with \<^verbatim>\<open>.to(at::kFloat)\<close>. \<open>to_float\<close> gives that value for
  the \<^verbatim>\<open>sizeof(T)\<close> bytes of one element. Single-precision values are taken as the
  real numbers they denote; a NaN or an infinity has no counterpart here.
\<close>

record scalar_type =
  sizeof :: size_t
  to_float :: "byte list \<Rightarrow> real"

text \<open>
  \<^verbatim>\<open>struct GemmParams\<close>. \<open>'v\<close> is \<^verbatim>\<open>at::opmath_type<T>\<close>, the type of \<open>alpha\<close> and
  \<open>beta\<close>. The private member \<^verbatim>\<open>duplicate_inputs_\<close> is the field \<open>duplicate_inputs\<close>
  (a name cannot end in an underscore here).
\<close>

record 'v GemmParams =
  transa :: char
  transb :: char
  m :: int64_t
  n :: int64_t
  k :: int64_t
  alpha :: 'v
  a :: addr
  lda :: int64_t
  b :: addr
  ldb :: int64_t
  beta :: 'v
  c :: addr
  ldc :: int64_t
  duplicate_inputs :: bool

text \<open>
  \<^verbatim>\<open>struct GemmStridedBatchedParams\<close> declares the same members once more, and four
  of its own: \<open>stride_a\<close>, \<open>stride_b\<close>, \<open>stride_c\<close> and \<open>batch\<close>. The record extends
  the dense one by these four, so that the shared members keep their names.
\<close>

record 'v GemmStridedBatchedParams = "'v GemmParams" +
  stride_a :: int64_t
  stride_b :: int64_t
  stride_c :: int64_t
  batch :: int64_t

text \<open>
  The constructors set \<^verbatim>\<open>duplicate_inputs_ = false\<close> and leave every other member
  as the storage happens to hold it: \<open>raw\<close> is that storage.
\<close>

definition GemmParams_ctor :: "'v GemmParams \<Rightarrow> 'v GemmParams" where
  "GemmParams_ctor raw = raw\<lparr>duplicate_inputs := False\<rparr>"

definition GemmStridedBatchedParams_ctor ::
  "'v GemmStridedBatchedParams \<Rightarrow> 'v GemmStridedBatchedParams" where
  "GemmStridedBatchedParams_ctor raw = raw\<lparr>duplicate_inputs := False\<rparr>"

text \<open>The dense descriptor with the members a batched descriptor shares with it.\<close>

definition dense_of :: "'v GemmStridedBatchedParams \<Rightarrow> 'v GemmParams" where
  "dense_of p =
     \<lparr>transa = transa p, transb = transb p, m = m p, n = n p, k = k p, alpha = alpha p,
      a = a p, lda = lda p, b = b p, ldb = ldb p, beta = beta p, c = c p, ldc = ldc p,
      duplicate_inputs = duplicate_inputs p\<rparr>"

subsection \<open>Signature\<close>

definition GemmParams_Signature :: "'v GemmParams \<Rightarrow> string" where
  "GemmParams_Signature this =
     c10_str [ArgChar (transa this), ArgChar (transb this), ArgLit ''_'', ArgInt64 (m this),
              ArgLit ''_'', ArgInt64 (n this), ArgLit ''_'', ArgInt64 (k this)]"

definition GemmStridedBatchedParams_Signature :: "'v GemmStridedBatchedParams \<Rightarrow> string" where
  "GemmStridedBatchedParams_Signature this =
     c10_str [ArgChar (transa this), ArgChar (transb this), ArgLit ''_'', ArgInt64 (m this),
              ArgLit ''_'', ArgInt64 (n this), ArgLit ''_'', ArgInt64 (k this),
              ArgLit ''_B_'', ArgInt64 (batch this)]"

subsection \<open>Sizes in bytes\<close>

definition GemmParams_GetSizeA :: "scalar_type \<Rightarrow> 'v GemmParams \<Rightarrow> size_t" where
  "GemmParams_GetSizeA T this =
     sizeof T * lda this *
       (if transa this = CHR ''n'' \<or> transa this = CHR ''N'' then k this else m this)"

definition GemmParams_GetSizeB :: "scalar_type \<Rightarrow> 'v GemmParams \<Rightarrow> size_t" where
  "GemmParams_GetSizeB T this =
     sizeof T * ldb this *
       (if transb this = CHR ''n'' \<or> transb this = CHR ''N'' then n this else k this)"

definition GemmParams_GetSizeC :: "scalar_type \<Rightarrow> 'v GemmParams \<Rightarrow> size_t" where
  "GemmParams_GetSizeC T this = sizeof T * ldc this * n this"

definition GemmParams_GetSize :: "scalar_type \<Rightarrow> bool \<Rightarrow> 'v GemmParams \<Rightarrow> size_t" where
  "GemmParams_GetSize T dup this =
     (let size0 = GemmParams_GetSizeC T this
      in if dup then size0 + GemmParams_GetSizeA T this + GemmParams_GetSizeB T this
         else size0)"

definition GemmStridedBatchedParams_GetSizeA ::
  "scalar_type \<Rightarrow> 'v GemmStridedBatchedParams \<Rightarrow> size_t" where
  "GemmStridedBatchedParams_GetSizeA T this =
     sizeof T * lda this *
       (if transa this = CHR ''n'' \<or> transa this = CHR ''N'' then k this else m this) *
       batch this"

definition GemmStridedBatchedParams_GetSizeB ::
  "scalar_type \<Rightarrow> 'v GemmStridedBatchedParams \<Rightarrow> size_t" where
  "GemmStridedBatchedParams_GetSizeB T this =
     sizeof T * ldb this *
       (if transb this = CHR ''n'' \<or> transb this = CHR ''N'' then n this else k this) *
       batch this"

definition GemmStridedBatchedParams_GetSizeC ::
  "scalar_type \<Rightarrow> 'v GemmStridedBatchedParams \<Rightarrow> size_t" where
  "GemmStridedBatchedParams_GetSizeC T this = sizeof T * ldc this * n this * batch this"

definition GemmStridedBatchedParams_GetSize ::
  "scalar_type \<Rightarrow> bool \<Rightarrow> 'v GemmStridedBatchedParams \<Rightarrow> size_t" where
  "GemmStridedBatchedParams_GetSize T dup this =
     (let size0 = GemmStridedBatchedParams_GetSizeC T this
      in if dup then size0 + GemmStridedBatchedParams_GetSizeA T this
                       + GemmStridedBatchedParams_GetSizeB T this
         else size0)"

text \<open>
  The descriptors of the end-to-end scenarios: a dense product with \<open>m = 64\<close>,
  \<open>n = 32\<close>, \<open>k = 16\<close>, no transposition, \<open>lda = 64\<close>, \<open>ldb = 16\<close>, \<open>ldc = 64\<close>,
  and the batched one of the same shape with \<open>batch = 4\<close>.
\<close>

definition example_dense :: "real GemmParams" where
  "example_dense =
     \<lparr>transa = CHR ''N'', transb = CHR ''N'', m = 64, n = 32, k = 16, alpha = 1,
      a = 0, lda = 64, b = 0, ldb = 16, beta = 0, c = 0, ldc = 64,
      duplicate_inputs = False\<rparr>"

definition example_batched :: "real GemmStridedBatchedParams" where
  "example_batched =
     \<lparr>transa = CHR ''N'', transb = CHR ''N'', m = 64, n = 32, k = 16, alpha = 1,
      a = 0, lda = 64, b = 0, ldb = 16, beta = 0, c = 0, ldc = 64,
      duplicate_inputs = False, stride_a = 1024, stride_b = 512, stride_c = 2048,
      batch = 4\<rparr>"

section \<open>Host objects and device memory\<close>

text \<open>
  The state the member functions act on. \<open>objs\<close> are the descriptor objects created
  by \<^verbatim>\<open>new\<close>; a pointer to one is its index. \<open>mem\<close> is the device memory: the byte
  at address \<open>q\<close> is \<open>mem ! q\<close>, and an address from \<open>length mem\<close> on is not mapped.
  \<open>live\<close> lists the blocks \<^verbatim>\<open>raw_alloc\<close> has handed out and \<^verbatim>\<open>raw_delete\<close> has not
  taken back, as (address, size); \<open>released\<close> lists the pointers passed to
  \<^verbatim>\<open>raw_delete\<close>, in call order. \<open>capacity\<close> is the number of bytes the device can
  map, \<open>junk\<close> what a byte reads as before anything is written to it, and \<open>device\<close>
  the index of the current device (\<open>None\<close> when the runtime cannot tell it).
\<close>

datatype error = DeviceError | AllocationError | InvalidArgument

record 'o world =
  objs :: "'o list"
  mem :: "byte list"
  live :: "(addr \<times> nat) list"
  released :: "addr list"
  capacity :: nat
  junk :: "addr \<Rightarrow> byte"
  device :: "nat option"

text \<open>
  A call that can throw returns the exception or its value, and the state it leaves
  behind in either case. \<open>and_then\<close> runs the rest of a function body after such a
  call: an exception ends the body there, with the state as it is.
\<close>

definition and_then ::
  "(error + 'x) \<times> 's \<Rightarrow> ('x \<Rightarrow> 's \<Rightarrow> (error + 'y) \<times> 's) \<Rightarrow> (error + 'y) \<times> 's" where
  "and_then r f = (case r of (Inl e, s) \<Rightarrow> (Inl e, s) | (Inr x, s) \<Rightarrow> f x s)"

text \<open>\<^verbatim>\<open>new\<close> with an initial value, and an assignment through a pointer.\<close>

definition new_object :: "'o \<Rightarrow> 'o world \<Rightarrow> nat \<times> 'o world" where
  "new_object v w = (length (objs w), w\<lparr>objs := objs w @ [v]\<rparr>)"

definition update_object :: "nat \<Rightarrow> ('o \<Rightarrow> 'o) \<Rightarrow> 'o world \<Rightarrow> 'o world" where
  "update_object p f w = w\<lparr>objs := (objs w)[p := f (objs w ! p)]\<rparr>"

text \<open>
  Modelled from the spec: the device allocator and runtime (\<^verbatim>\<open>c10::cuda::GetDevice\<close>,
  \<^verbatim>\<open>CUDACachingAllocator::raw_alloc\<close>, \<^verbatim>\<open>raw_delete\<close> and \<^verbatim>\<open>memcpyAsync\<close>, none of
  them among the sources). The spec gives them as \<^verbatim>\<open>getCurrentDeviceIndex() -> index\<close>,
  \<^verbatim>\<open>allocate(bytes) -> bufferRef\<close>, which fails with an allocation error on
  exhaustion, \<^verbatim>\<open>free(bufferRef)\<close>, and \<^verbatim>\<open>copyAsync(dst, dstDevice, src, srcDevice,
  bytes, stream, nonBlocking)\<close>, which fails with a device error. An allocation is
  fresh: it maps bytes past every address mapped so far, and they hold junk. A copy
  fails when one of its two ranges is not mapped. The copy is ordered on the current
  stream; the state returned is the one every later operation on that stream sees,
  the copy done.
\<close>

definition GetDevice :: "'o world \<Rightarrow> (error + nat) \<times> 'o world" where
  "GetDevice w = (case device w of None \<Rightarrow> (Inl DeviceError, w) | Some i \<Rightarrow> (Inr i, w))"

definition raw_alloc :: "nat \<Rightarrow> 'o world \<Rightarrow> (error + addr) \<times> 'o world" where
  "raw_alloc nbytes w =
     (if capacity w < length (mem w) + nbytes then (Inl AllocationError, w)
      else let base = length (mem w)
           in (Inr base,
               w\<lparr>mem := mem w @ map (junk w) [base..<base + nbytes],
                 live := (base, nbytes) # live w\<rparr>))"

definition raw_delete :: "addr \<Rightarrow> 'o world \<Rightarrow> 'o world" where
  "raw_delete p w =
     w\<lparr>live := filter (\<lambda>blk. fst blk \<noteq> p) (live w), released := released w @ [p]\<rparr>"

definition slice :: "'x list \<Rightarrow> nat \<Rightarrow> nat \<Rightarrow> 'x list" where
  "slice xs p cnt = take cnt (drop p xs)"

definition read_bytes :: "'o world \<Rightarrow> addr \<Rightarrow> nat \<Rightarrow> byte list option" where
  "read_bytes w p nbytes =
     (if p + nbytes \<le> length (mem w) then Some (slice (mem w) p nbytes) else None)"

definition memcpyAsync ::
  "addr \<Rightarrow> nat \<Rightarrow> addr \<Rightarrow> nat \<Rightarrow> nat \<Rightarrow> 'o world \<Rightarrow> (error + unit) \<times> 'o world" where
  "memcpyAsync dst dstDevice src srcDevice nbytes w =
     (case read_bytes w src nbytes of
        None \<Rightarrow> (Inl DeviceError, w)
      | Some bs \<Rightarrow>
          if dst + nbytes \<le> length (mem w)
          then (Inr (), w\<lparr>mem := take dst (mem w) @ bs @ drop (dst + nbytes) (mem w)\<rparr>)
          else (Inl DeviceError, w))"

subsection \<open>DeepCopy and Delete\<close>

text \<open>
  The two \<^verbatim>\<open>DeepCopy\<close> bodies are the same text; they differ in the struct they
  copy and in the \<^verbatim>\<open>GetSizeA\<close>, \<^verbatim>\<open>GetSizeB\<close>, \<^verbatim>\<open>GetSizeC\<close> they call. \<open>DeepCopy_body\<close>
  is that text, with the three sizes as arguments. \<^verbatim>\<open>new GemmParams; *copy = *this\<close>
  leaves the new object equal to the receiver in every member, the private one
  included: the assignment overwrites what the constructor has set. The host
  allocation itself is taken to succeed. An exception leaves behind what has been
  allocated up to there, the new object included.
\<close>

definition DeepCopy_body ::
  "size_t \<Rightarrow> size_t \<Rightarrow> size_t \<Rightarrow> bool \<Rightarrow> ('v, 'z) GemmParams_scheme \<Rightarrow>
   ('v, 'z) GemmParams_scheme world \<Rightarrow> (error + nat) \<times> ('v, 'z) GemmParams_scheme world" where
  "DeepCopy_body c_size a_size b_size dup this w0 =
     (case new_object this w0 of (copy, w1) \<Rightarrow>
      and_then (GetDevice w1) (\<lambda>dev w2.
      and_then (raw_alloc (unat c_size) w2) (\<lambda>pc w3.
      and_then (memcpyAsync pc dev (c this) dev (unat c_size)
                  (update_object copy (\<lambda>obj. obj\<lparr>c := pc\<rparr>) w3)) (\<lambda>_ w4.
      if dup then
        and_then (raw_alloc (unat a_size) w4) (\<lambda>pa w5.
        and_then (raw_alloc (unat b_size) (update_object copy (\<lambda>obj. obj\<lparr>a := pa\<rparr>) w5))
          (\<lambda>pb w6.
             (Inr copy,
              update_object copy (\<lambda>obj. obj\<lparr>duplicate_inputs := True\<rparr>)
                (update_object copy (\<lambda>obj. obj\<lparr>b := pb\<rparr>) w6))))
      else (Inr copy, w4)))))"

definition GemmParams_DeepCopy ::
  "scalar_type \<Rightarrow> bool \<Rightarrow> 'v GemmParams \<Rightarrow> 'v GemmParams world \<Rightarrow>
   (error + nat) \<times> 'v GemmParams world" where
  "GemmParams_DeepCopy T dup this w =
     DeepCopy_body (GemmParams_GetSizeC T this) (GemmParams_GetSizeA T this)
       (GemmParams_GetSizeB T this) dup this w"

definition GemmStridedBatchedParams_DeepCopy ::
  "scalar_type \<Rightarrow> bool \<Rightarrow> 'v GemmStridedBatchedParams \<Rightarrow> 'v GemmStridedBatchedParams world \<Rightarrow>
   (error + nat) \<times> 'v GemmStridedBatchedParams world" where
  "GemmStridedBatchedParams_DeepCopy T dup this w =
     DeepCopy_body (GemmStridedBatchedParams_GetSizeC T this)
       (GemmStridedBatchedParams_GetSizeA T this)
       (GemmStridedBatchedParams_GetSizeB T this) dup this w"

text \<open>\<^verbatim>\<open>Delete\<close> has one body as well. It checks nothing and throws nothing.\<close>

definition Delete_body :: "('v, 'z) GemmParams_scheme \<Rightarrow> 'o world \<Rightarrow> 'o world" where
  "Delete_body this w =
     (let w1 = raw_delete (c this) w
      in if duplicate_inputs this then raw_delete (b this) (raw_delete (a this) w1) else w1)"

definition GemmParams_Delete :: "'v GemmParams \<Rightarrow> 'o world \<Rightarrow> 'o world" where
  "GemmParams_Delete this w = Delete_body this w"

definition GemmStridedBatchedParams_Delete ::
  "'v GemmStridedBatchedParams \<Rightarrow> 'o world \<Rightarrow> 'o world" where
  "GemmStridedBatchedParams_Delete this w = Delete_body this w"

subsection \<open>NumericalCheck\<close>

text \<open>
  \<^verbatim>\<open>enum TuningStatus\<close> is declared in \<^verbatim>\<open>TunableOp.h\<close>; \<^verbatim>\<open>NumericalCheck\<close> returns
  \<^verbatim>\<open>OK\<close> or \<^verbatim>\<open>FAIL\<close>.
\<close>

datatype TuningStatus = OK | FAIL | UNSUPPORTED

text \<open>
  \<^verbatim>\<open>at::from_blob(p, {cnt}, options).to(at::kFloat)\<close>: the \<open>cnt\<close> elements of type
  \<^verbatim>\<open>T\<close> that start at \<open>p\<close>, each converted. A negative count is refused, and so is
  a range that is not mapped. The count is an \<^verbatim>\<open>int64_t\<close> product (\<open>ldc * n\<close>, or
  \<open>batch * stride_c\<close>), taken here with the wrap-around of the machine.
\<close>

definition from_blob_to_float ::
  "scalar_type \<Rightarrow> 'o world \<Rightarrow> addr \<Rightarrow> int64_t \<Rightarrow> error + real list" where
  "from_blob_to_float T w p cnt =
     (if sint cnt < 0 then Inl InvalidArgument
      else case read_bytes w p (nat (sint cnt) * unat (sizeof T)) of
             None \<Rightarrow> Inl DeviceError
           | Some bs \<Rightarrow>
               Inr (map (\<lambda>i. to_float T (slice bs (i * unat (sizeof T)) (unat (sizeof T))))
                      [0..<nat (sint cnt)]))"

text \<open>
  Modelled from the spec: \<^verbatim>\<open>at::allclose(self, other, rtol, atol)\<close>, which is not
  among the sources. The glossary of the spec has the all-close predicate as the
  elementwise check \<open>\<bar>a - b\<bar> \<le> atol + rtol * \<bar>b\<bar>\<close>, \<open>a\<close> and \<open>b\<close> its two operands
  in order.
\<close>

definition allclose :: "real list \<Rightarrow> real list \<Rightarrow> real \<Rightarrow> real \<Rightarrow> bool" where
  "allclose self other rtol atol =
     list_all2 (\<lambda>x y. \<bar>x - y\<bar> \<le> atol + rtol * \<bar>y\<bar>) self other"

text \<open>
  The tolerances are \<^verbatim>\<open>double\<close> literals. The loop stores them, passes them on and
  compares one with \<open>1\<close>; they stand here as the numbers the literals are written as.
\<close>

definition atols :: "real list" where
  "atols = [1 / 10, 1 / 100, 1 / 1000, 1 / 10000, 1 / 100000]"

definition rtols :: "real list" where
  "rtols = [1 / 10, 1 / 100, 1 / 1000, 1 / 10000, 1 / 100000]"

text \<open>
  The two nested loops, over a predicate \<open>close rtol atol\<close>: the state is
  (\<^verbatim>\<open>last_succeed_atol\<close>, \<^verbatim>\<open>last_succeed_rtol\<close>), which starts as \<open>(1, 1)\<close>.
\<close>

definition sweep :: "(real \<Rightarrow> real \<Rightarrow> bool) \<Rightarrow> real \<times> real" where
  "sweep close =
     fold (\<lambda>atol. fold (\<lambda>rtol last_succeed.
             if close rtol atol then (atol, rtol) else last_succeed) rtols)
       atols (1, 1)"

text \<open>
  What follows the loops: \<^verbatim>\<open>FAIL\<close> when \<^verbatim>\<open>last_succeed_atol == 1\<close>; otherwise the
  pair is logged and the result is \<^verbatim>\<open>OK\<close>. The second component is the pair logged.
\<close>

definition verdict :: "real \<times> real \<Rightarrow> TuningStatus \<times> (real \<times> real) option" where
  "verdict last_succeed =
     (if fst last_succeed = 1 then (FAIL, None) else (OK, Some last_succeed))"

definition NumericalCheck_body ::
  "scalar_type \<Rightarrow> int64_t \<Rightarrow> addr \<Rightarrow> addr \<Rightarrow> 'o world \<Rightarrow>
   error + TuningStatus \<times> (real \<times> real) option" where
  "NumericalCheck_body T cnt c_this c_other w =
     (case from_blob_to_float T w c_this cnt of
        Inl e \<Rightarrow> Inl e
      | Inr ref_float \<Rightarrow>
          (case from_blob_to_float T w c_other cnt of
             Inl e \<Rightarrow> Inl e
           | Inr oth_float \<Rightarrow> Inr (verdict (sweep (allclose ref_float oth_float)))))"

definition GemmParams_NumericalCheck ::
  "scalar_type \<Rightarrow> 'v GemmParams \<Rightarrow> 'v GemmParams \<Rightarrow> 'o world \<Rightarrow>
   error + TuningStatus \<times> (real \<times> real) option" where
  "GemmParams_NumericalCheck T this other w =
     NumericalCheck_body T (ldc this * n this) (c this) (c other) w"

definition GemmStridedBatchedParams_NumericalCheck ::
  "scalar_type \<Rightarrow> 'v GemmStridedBatchedParams \<Rightarrow> 'v GemmStridedBatchedParams \<Rightarrow> 'o world \<Rightarrow>
   error + TuningStatus \<times> (real \<times> real) option" where
  "GemmStridedBatchedParams_NumericalCheck T this other w =
     NumericalCheck_body T (batch this * stride_c this) (c this) (c other) w"

section \<open>Examples\<close>

text \<open>
  The element type of the examples is \<^verbatim>\<open>float\<close>: four bytes, least significant
  first, holding a sign bit, eight exponent bits and twenty-three fraction bits.
  \<open>float32_value\<close> is the number they denote; the conversion to \<^verbatim>\<open>at::kFloat\<close> leaves
  it as it is. The examples use exponents below \<open>255\<close> only.
\<close>

definition le_value :: "byte list \<Rightarrow> nat" where
  "le_value bs = foldr (\<lambda>x acc. unat x + 256 * acc) bs 0"

definition float32_value :: "byte list \<Rightarrow> real" where
  "float32_value bs =
     (let x = le_value bs; e = (x div 2 ^ 23) mod 256; f = x mod 2 ^ 23
      in (if x div 2 ^ 31 = 0 then 1 else - 1) *
         (if e = 0 then real f / 2 ^ 23 * 2 / 2 ^ 127
          else (1 + real f / 2 ^ 23) * 2 ^ e / 2 ^ 127))"

definition float32 :: scalar_type where
  "float32 = \<lparr>sizeof = 4, to_float = float32_value\<rparr>"

text \<open>
  The smallest descriptors: every dimension and leading dimension is \<open>1\<close>, the
  output buffer is at \<open>pc\<close>; the batched one has one batch and the batch stride \<open>sc\<close>
  for \<open>C\<close>. They are as a caller sets them up: they own no buffer.
\<close>

definition unit_dense :: "addr \<Rightarrow> real GemmParams" where
  "unit_dense pc =
     \<lparr>transa = CHR ''N'', transb = CHR ''N'', m = 1, n = 1, k = 1, alpha = 1,
      a = 0, lda = 1, b = 0, ldb = 1, beta = 0, c = pc, ldc = 1,
      duplicate_inputs = False\<rparr>"

definition unit_batched :: "addr \<Rightarrow> int64_t \<Rightarrow> real GemmStridedBatchedParams" where
  "unit_batched pc sc =
     \<lparr>transa = CHR ''N'', transb = CHR ''N'', m = 1, n = 1, k = 1, alpha = 1,
      a = 0, lda = 1, b = 0, ldb = 1, beta = 0, c = pc, ldc = 1,
      duplicate_inputs = False, stride_a = 1, stride_b = 1, stride_c = sc, batch = 1\<rparr>"

text \<open>
  A state with eight mapped bytes, the \<^verbatim>\<open>float\<close> \<open>0\<close> at address \<open>0\<close> and the \<^verbatim>\<open>float\<close>
  \<open>7 / 64\<close> (the bits \<^verbatim>\<open>0x3DE00000\<close>) at address \<open>4\<close>, room for sixty-four bytes, no
  host object and nothing allocated; once for each descriptor type.
\<close>

definition example_world :: "real GemmParams world" where
  "example_world =
     \<lparr>objs = [], mem = [0, 0, 0, 0, 0, 0, 224, 61], live = [], released = [], capacity = 64,
      junk = (\<lambda>_. 0), device = Some 0\<rparr>"

definition example_world_batched :: "real GemmStridedBatchedParams world" where
  "example_world_batched =
     \<lparr>objs = [], mem = [0, 0, 0, 0, 0, 0, 224, 61], live = [], released = [], capacity = 64,
      junk = (\<lambda>_. 0), device = Some 0\<rparr>"

section \<open>Predicates of the statements\<close>

text \<open>
  \<open>untouched w w'\<close>: every host object of \<open>w\<close> and every mapped byte of \<open>w\<close> is in
  \<open>w'\<close> as it was, and nothing has been passed to \<^verbatim>\<open>raw_delete\<close> in between.
\<close>

definition untouched :: "'o world \<Rightarrow> 'o world \<Rightarrow> bool" where
  "untouched w w' \<longleftrightarrow>
     (\<forall>p<length (objs w). objs w' ! p = objs w ! p) \<and>
     (\<forall>q<length (mem w). mem w' ! q = mem w ! q) \<and>
     length (objs w) \<le> length (objs w') \<and> length (mem w) \<le> length (mem w') \<and>
     released w' = released w"

text \<open>
  \<open>same_shape x y\<close>: the transpose characters, the dimensions, the leading dimensions
  and the two scalars of \<open>x\<close> and \<open>y\<close> are equal.
\<close>

definition same_shape ::
  "('v, 'z) GemmParams_scheme \<Rightarrow> ('v, 'y) GemmParams_scheme \<Rightarrow> bool" where
  "same_shape x y \<longleftrightarrow>
     transa x = transa y \<and> transb x = transb y \<and> m x = m y \<and> n x = n y \<and> k x = k y \<and>
     alpha x = alpha y \<and> beta x = beta y \<and> lda x = lda y \<and> ldb x = ldb y \<and> ldc x = ldc y"

text \<open>
  \<open>seeded_output c_size this copy w w'\<close>: the output buffer of \<open>copy\<close> is a block of
  \<open>c_size\<close> bytes that \<^verbatim>\<open>raw_alloc\<close> handed out between \<open>w\<close> and \<open>w'\<close>, at an address
  that is not mapped in \<open>w\<close>; and where the \<open>c_size\<close> bytes at the output buffer of
  \<open>this\<close> are mapped in \<open>w\<close>, the block holds in \<open>w'\<close> what they held in \<open>w\<close>.
\<close>

definition seeded_output ::
  "size_t \<Rightarrow> ('v, 'z) GemmParams_scheme \<Rightarrow> ('v, 'z) GemmParams_scheme \<Rightarrow>
   'o world \<Rightarrow> 'o world \<Rightarrow> bool" where
  "seeded_output c_size this copy w w' \<longleftrightarrow>
     c copy = length (mem w) \<and> (c copy, unat c_size) \<in> set (live w') \<and>
     c copy + unat c_size \<le> length (mem w') \<and>
     (c this + unat c_size \<le> length (mem w) \<longrightarrow>
        read_bytes w (c this) (unat c_size) \<noteq> None \<and>
        read_bytes w' (c copy) (unat c_size) = read_bytes w (c this) (unat c_size))"

text \<open>
  The all-close predicate with the relative term taken from the reference element,
  \<open>\<bar>r - c\<bar> \<le> atol + rtol * \<bar>r\<bar>\<close>, to compare with \<open>allclose\<close>.
\<close>

definition allclose_by_reference :: "real list \<Rightarrow> real list \<Rightarrow> real \<Rightarrow> real \<Rightarrow> bool" where
  "allclose_by_reference ref oth rtol atol =
     list_all2 (\<lambda>r cand. \<bar>r - cand\<bar> \<le> atol + rtol * \<bar>r\<bar>) ref oth"

section \<open>Decimal output is injective\<close>

lemma digit_char_inj: "x < 10 \<Longrightarrow> y < 10 \<Longrightarrow> digit_char x = digit_char y \<Longrightarrow> x = y"
proof -
  assume lt: "x < 10" "y < 10" and eq: "digit_char x = digit_char y"
  have d: "distinct ''0123456789''" by simp
  have len: "length ''0123456789'' = 10" by simp
  from eq have "''0123456789'' ! x = ''0123456789'' ! y" by (simp add: digit_char_def)
  with d lt len show "x = y" by (metis nth_eq_iff_index_eq)
qed

lemma digit_char_mem: "x < 10 \<Longrightarrow> digit_char x \<in> set ''0123456789''"
  unfolding digit_char_def by (rule nth_mem) simp

lemma digits_set: "set (digits x) \<subseteq> set ''0123456789''"
proof (induction x rule: digits.induct)
  case (1 x)
  show ?case
  proof (cases "x < 10")
    case True
    then show ?thesis using digit_char_mem [of x] by (subst digits.simps) simp
  next
    case False
    have "x mod 10 < 10" by simp
    then have "digit_char (x mod 10) \<in> set ''0123456789''" by (rule digit_char_mem)
    with False 1 show ?thesis by (subst digits.simps) simp
  qed
qed

lemma digits_nonempty: "digits x \<noteq> []"
  by (subst digits.simps) simp

lemma digits_length_ge2: "\<not> x < 10 \<Longrightarrow> 2 \<le> length (digits x)"
proof -
  assume "\<not> x < 10"
  then have "digits x = digits (x div 10) @ [digit_char (x mod 10)]" by (subst digits.simps) simp
  moreover have "1 \<le> length (digits (x div 10))"
    using digits_nonempty [of "x div 10"] by (cases "digits (x div 10)") simp_all
  ultimately show ?thesis by simp
qed

lemma digits_inj: "digits x = digits y \<Longrightarrow> x = y"
proof (induction x arbitrary: y rule: digits.induct)
  case (1 x)
  show ?case
  proof (cases "x < 10")
    case True
    then have dx: "digits x = [digit_char x]" by (subst digits.simps) simp
    show ?thesis
    proof (cases "y < 10")
      case True
      then have "digits y = [digit_char y]" by (subst digits.simps) simp
      with dx "1.prems" have "digit_char x = digit_char y" by simp
      with \<open>x < 10\<close> True show ?thesis by (rule digit_char_inj)
    next
      case False
      then have "2 \<le> length (digits y)" by (rule digits_length_ge2)
      with dx "1.prems" show ?thesis by simp
    qed
  next
    case False
    then have dx: "digits x = digits (x div 10) @ [digit_char (x mod 10)]"
      by (subst digits.simps) simp
    show ?thesis
    proof (cases "y < 10")
      case True
      then have "digits y = [digit_char y]" by (subst digits.simps) simp
      moreover from False have "2 \<le> length (digits x)" by (rule digits_length_ge2)
      ultimately show ?thesis using "1.prems" by simp
    next
      case yF: False
      then have dy: "digits y = digits (y div 10) @ [digit_char (y mod 10)]"
        by (subst digits.simps) simp
      from dx dy "1.prems" have e1: "digits (x div 10) = digits (y div 10)"
        and e2: "digit_char (x mod 10) = digit_char (y mod 10)" by simp_all
      from "1.IH" [OF False e1] have q: "x div 10 = y div 10" .
      have "x mod 10 < 10" "y mod 10 < 10" by simp_all
      with e2 have r: "x mod 10 = y mod 10" by (metis digit_char_inj)
      from q r show ?thesis by (metis div_mult_mod_eq)
    qed
  qed
qed

lemma show_int_inj: "show_int i = show_int j \<Longrightarrow> i = j"
proof -
  assume eq: "show_int i = show_int j"
  have nd: "\<And>x. hd (digits x) \<noteq> CHR ''-''"
  proof -
    fix x
    have "hd (digits x) \<in> set (digits x)" using digits_nonempty by simp
    with digits_set [of x] have "hd (digits x) \<in> set ''0123456789''" by blast
    then show "hd (digits x) \<noteq> CHR ''-''" by auto
  qed
  show "i = j"
  proof (cases "i < 0")
    case True
    show ?thesis
    proof (cases "j < 0")
      case jT: True
      with True eq have "digits (nat (- i)) = digits (nat (- j))" by (simp add: show_int_def)
      then have "nat (- i) = nat (- j)" by (rule digits_inj)
      with True jT show ?thesis by simp
    next
      case False
      with True eq have "CHR ''-'' # digits (nat (- i)) = digits (nat j)" by (simp add: show_int_def)
      then have "hd (digits (nat j)) = CHR ''-''" by (metis list.sel(1))
      with nd show ?thesis by blast
    qed
  next
    case False
    show ?thesis
    proof (cases "j < 0")
      case True
      with False eq have "digits (nat i) = CHR ''-'' # digits (nat (- j))" by (simp add: show_int_def)
      then have "hd (digits (nat i)) = CHR ''-''" by simp
      with nd show ?thesis by blast
    next
      case jF: False
      with False eq have "digits (nat i) = digits (nat j)" by (simp add: show_int_def)
      then have "nat i = nat j" by (rule digits_inj)
      with False jF show ?thesis by simp
    qed
  qed
qed

lemma show_int_no_underscore: "CHR ''_'' \<notin> set (show_int i)"
proof -
  have "\<And>x. CHR ''_'' \<notin> set (digits x)"
  proof
    fix x assume "CHR ''_'' \<in> set (digits x)"
    with digits_set [of x] have "CHR ''_'' \<in> set ''0123456789''" by blast
    then show False by simp
  qed
  then show ?thesis by (simp add: show_int_def)
qed

lemma split_at_sep:
  assumes "xs @ s # ys = xs' @ s # ys'" and "s \<notin> set xs" and "s \<notin> set xs'"
  shows "xs = xs' \<and> ys = ys'"
  using assms
proof (induction xs arbitrary: xs')
  case Nil
  then show ?case by (cases xs') auto
next
  case (Cons x xs)
  then show ?case by (cases xs') auto
qed

lemma sint_inj64: "sint (x :: 64 word) = sint y \<Longrightarrow> x = y"
  by (rule signed_word_eqI)

lemma unat_mult3:
  "unat x * unat y * unat z < 2 ^ 64 \<Longrightarrow> unat ((x :: 64 word) * y * z) = unat x * unat y * unat z"
proof -
  assume lt: "unat x * unat y * unat z < 2 ^ 64"
  have "unat (x * y * z) = (unat x * unat y * unat z) mod 2 ^ 64"
    by (simp add: unat_word_ariths mod_simps)
  with lt show ?thesis by simp
qed

section \<open>The examples, evaluated\<close>

text \<open>
  The two buffers of the example state read as the \<^verbatim>\<open>float\<close>s \<open>0\<close> and \<open>7 / 64\<close>; the
  check of the one against the other passes for \<open>atol = rtol = 1 / 10\<close> and for no
  other pair. \<^verbatim>\<open>DeepCopy\<close> on the smallest descriptors runs through, and leaves the
  states given.
\<close>

lemma ex_ref: "from_blob_to_float float32 example_world 0 1 = Inr [0]"
  by (simp add: from_blob_to_float_def float32_def float32_value_def example_world_def
      read_bytes_def slice_def le_value_def)

lemma ex_oth: "from_blob_to_float float32 example_world 4 1 = Inr [7 / 64]"
  by (simp add: from_blob_to_float_def float32_def float32_value_def example_world_def
      read_bytes_def slice_def le_value_def)

lemma ex_sweep: "sweep (allclose [0] [7 / 64]) = (1 / 10, 1 / 10)"
  by (simp add: sweep_def atols_def rtols_def allclose_def)

lemma ex_sweep_ref: "sweep (allclose_by_reference [0] [7 / 64]) = (1, 1)"
  by (simp add: sweep_def atols_def rtols_def allclose_by_reference_def)

lemma ex_check:
  "GemmParams_NumericalCheck float32 (unit_dense 0) (unit_dense 4) example_world =
     Inr (OK, Some (1 / 10, 1 / 10))"
  using ex_ref ex_oth
  by (simp add: GemmParams_NumericalCheck_def NumericalCheck_body_def unit_dense_def
      ex_sweep verdict_def)

lemma ex_ref_b:
  "from_blob_to_float float32 example_world (c (unit_batched 0 1))
     (batch (unit_batched 0 1) * stride_c (unit_batched 0 1)) = Inr [0]"
  using ex_ref by (simp add: unit_batched_def)

lemma ex_oth_b:
  "from_blob_to_float float32 example_world (c (unit_batched 4 1))
     (batch (unit_batched 0 1) * stride_c (unit_batched 0 1)) = Inr [7 / 64]"
  using ex_oth by (simp add: unit_batched_def)

lemma ex_ref_d:
  "from_blob_to_float float32 example_world (c (unit_dense 0))
     (ldc (unit_dense 0) * n (unit_dense 0)) = Inr [0]"
  using ex_ref by (simp add: unit_dense_def)

lemma ex_oth_d:
  "from_blob_to_float float32 example_world (c (unit_dense 4))
     (ldc (unit_dense 0) * n (unit_dense 0)) = Inr [7 / 64]"
  using ex_oth by (simp add: unit_dense_def)

lemma ex_check_b:
  "GemmStridedBatchedParams_NumericalCheck float32 (unit_batched 0 1) (unit_batched 4 1)
     example_world = Inr (OK, Some (1 / 10, 1 / 10))"
  using ex_ref_b ex_oth_b
  by (simp add: GemmStridedBatchedParams_NumericalCheck_def NumericalCheck_body_def
      ex_sweep verdict_def)

lemma ex_sizes:
  "GemmParams_GetSizeC float32 (unit_dense pc) = 4"
  "GemmParams_GetSizeA float32 (unit_dense pc) = 4"
  "GemmParams_GetSizeB float32 (unit_dense pc) = 4"
  "GemmStridedBatchedParams_GetSizeC float32 (unit_batched pc sc) = 4"
  "GemmStridedBatchedParams_GetSizeA float32 (unit_batched pc sc) = 4"
  "GemmStridedBatchedParams_GetSizeB float32 (unit_batched pc sc) = 4"
  by (simp_all add: GemmParams_GetSizeA_def GemmParams_GetSizeB_def GemmParams_GetSizeC_def
      GemmStridedBatchedParams_GetSizeA_def GemmStridedBatchedParams_GetSizeB_def
      GemmStridedBatchedParams_GetSizeC_def float32_def unit_dense_def unit_batched_def)

lemma ex_body_true:
  "DeepCopy_body 4 4 4 True (unit_dense 0) example_world =
     (Inr 0,
      example_world
        \<lparr>objs := [(unit_dense 0)\<lparr>c := 8, a := 12, b := 16, duplicate_inputs := True\<rparr>],
         mem := [0, 0, 0, 0, 0, 0, 224, 61, 0, 0, 0, 0, 0, 0, 0, 0, 0, 0, 0, 0],
         live := [(16, 4), (12, 4), (8, 4)]\<rparr>)"
  by (simp add: DeepCopy_body_def new_object_def GetDevice_def
      raw_alloc_def memcpyAsync_def read_bytes_def slice_def update_object_def and_then_def
      Let_def example_world_def unit_dense_def upt_rec)

lemma ex_DeepCopy_true:
  "GemmParams_DeepCopy float32 True (unit_dense 0) example_world =
     (Inr 0,
      example_world
        \<lparr>objs := [(unit_dense 0)\<lparr>c := 8, a := 12, b := 16, duplicate_inputs := True\<rparr>],
         mem := [0, 0, 0, 0, 0, 0, 224, 61, 0, 0, 0, 0, 0, 0, 0, 0, 0, 0, 0, 0],
         live := [(16, 4), (12, 4), (8, 4)]\<rparr>)"
  unfolding GemmParams_DeepCopy_def ex_sizes by (rule ex_body_true)

lemma ex_body_false_batched:
  "DeepCopy_body 4 4 4 False (unit_batched 0 2) example_world_batched =
     (Inr 0,
      example_world_batched
        \<lparr>objs := [(unit_batched 0 2)\<lparr>c := 8\<rparr>],
         mem := [0, 0, 0, 0, 0, 0, 224, 61, 0, 0, 0, 0], live := [(8, 4)]\<rparr>)"
  by (simp add: DeepCopy_body_def new_object_def GetDevice_def
      raw_alloc_def memcpyAsync_def read_bytes_def slice_def update_object_def and_then_def
      Let_def example_world_batched_def unit_batched_def upt_rec)

lemma ex_DeepCopy_false_batched:
  "GemmStridedBatchedParams_DeepCopy float32 False (unit_batched 0 2)
     example_world_batched =
     (Inr 0,
      example_world_batched
        \<lparr>objs := [(unit_batched 0 2)\<lparr>c := 8\<rparr>],
         mem := [0, 0, 0, 0, 0, 0, 224, 61, 0, 0, 0, 0], live := [(8, 4)]\<rparr>)"
  unfolding GemmStridedBatchedParams_DeepCopy_def ex_sizes by (rule ex_body_false_batched)

section \<open>Signatures\<close>

lemma Signature_dense_unfold:
  "GemmParams_Signature p =
     [transa p, transb p] @ ''_'' @ show_int (sint (m p)) @ ''_'' @ show_int (sint (n p)) @
     ''_'' @ show_int (sint (k p))"
  by (simp add: GemmParams_Signature_def c10_str_def)

lemma Signature_dense_eq_iff:
  "GemmParams_Signature p = GemmParams_Signature q \<longleftrightarrow>
     transa p = transa q \<and> transb p = transb q \<and> m p = m q \<and> n p = n q \<and> k p = k q"
proof
  assume eq: "GemmParams_Signature p = GemmParams_Signature q"
  let ?M = "show_int (sint (m p))" and ?M' = "show_int (sint (m q))"
  let ?N = "show_int (sint (n p))" and ?N' = "show_int (sint (n q))"
  let ?K = "show_int (sint (k p))" and ?K' = "show_int (sint (k q))"
  from eq have t: "transa p = transa q" "transb p = transb q"
    and r1: "?M @ CHR ''_'' # (?N @ CHR ''_'' # ?K) = ?M' @ CHR ''_'' # (?N' @ CHR ''_'' # ?K')"
    by (simp_all add: Signature_dense_unfold)
  from split_at_sep [OF r1 show_int_no_underscore show_int_no_underscore]
  have e1: "?M = ?M'" and r2: "?N @ CHR ''_'' # ?K = ?N' @ CHR ''_'' # ?K'" by simp_all
  from split_at_sep [OF r2 show_int_no_underscore show_int_no_underscore]
  have e2: "?N = ?N'" and e3: "?K = ?K'" by simp_all
  from e1 e2 e3 have "m p = m q" "n p = n q" "k p = k q"
    by (auto dest!: show_int_inj sint_inj64)
  with t show "transa p = transa q \<and> transb p = transb q \<and> m p = m q \<and> n p = n q \<and> k p = k q"
    by simp
next
  assume "transa p = transa q \<and> transb p = transb q \<and> m p = m q \<and> n p = n q \<and> k p = k q"
  then show "GemmParams_Signature p = GemmParams_Signature q"
    by (simp add: Signature_dense_unfold)
qed

lemma show_int_examples:
  "show_int 64 = ''64''" "show_int 32 = ''32''" "show_int 16 = ''16''" "show_int 4 = ''4''"
  by (simp_all add: show_int_def digits.simps digit_char_def)

text \<open>
  Claim C4. The signature of a dense descriptor is \<open>transa\<close>, \<open>transb\<close>, an
  underscore, \<open>m\<close>, an underscore, \<open>n\<close>, an underscore, \<open>k\<close>, the three numbers in
  decimal; the descriptor of the end-to-end scenario has the signature
  \<^verbatim>\<open>NN_64_32_16\<close>. Two dense descriptors have the same signature exactly when they
  agree in \<open>transa\<close>, \<open>transb\<close>, \<open>m\<close>, \<open>n\<close> and \<open>k\<close>: \<open>alpha\<close>, \<open>beta\<close>, the buffer
  addresses and the leading dimensions do not enter it, and a difference in one of the
  five shows. No assumption on the descriptor is needed.
\<close>

theorem Signature_dense:
  "GemmParams_Signature p =
     [transa p, transb p] @ ''_'' @ show_int (sint (m p)) @ ''_'' @ show_int (sint (n p)) @
     ''_'' @ show_int (sint (k p)) \<and>
   GemmParams_Signature example_dense = ''NN_64_32_16'' \<and>
   (GemmParams_Signature p = GemmParams_Signature q \<longleftrightarrow>
      transa p = transa q \<and> transb p = transb q \<and> m p = m q \<and> n p = n q \<and> k p = k q)"
proof -
  have "GemmParams_Signature example_dense = ''NN_64_32_16''"
    by (simp add: Signature_dense_unfold example_dense_def show_int_examples)
  with Signature_dense_unfold [of p] Signature_dense_eq_iff [of p q] show ?thesis by blast
qed

lemma Signature_batched_unfold:
  "GemmStridedBatchedParams_Signature p =
     GemmParams_Signature (dense_of p) @ ''_B_'' @ show_int (sint (batch p))"
  by (simp add: GemmStridedBatchedParams_Signature_def GemmParams_Signature_def c10_str_def
      dense_of_def)

lemma Signature_batched_neq_dense:
  "GemmStridedBatchedParams_Signature p \<noteq> GemmParams_Signature (dense_of p)"
  by (simp add: Signature_batched_unfold)

lemma Signature_batched_batch_iff:
  "GemmStridedBatchedParams_Signature (p\<lparr>batch := x\<rparr>) =
   GemmStridedBatchedParams_Signature (p\<lparr>batch := y\<rparr>) \<longleftrightarrow> x = y"
  by (auto simp add: Signature_batched_unfold dense_of_def dest!: show_int_inj sint_inj64)

text \<open>
  Claim C5. The signature of a batched descriptor is the dense signature of its
  \<open>transa\<close>, \<open>transb\<close>, \<open>m\<close>, \<open>n\<close>, \<open>k\<close>, then \<^verbatim>\<open>_B_\<close> and the batch count in decimal;
  for the scenario with \<open>batch = 4\<close> it is \<^verbatim>\<open>NN_64_32_16_B_4\<close>. It differs from that
  dense signature whenever \<open>batch \<noteq> 1\<close> (by \<open>Signature_batched_neq_dense\<close> it does
  so for every batch count), and with all other members the same, two batched
  signatures are equal exactly when the batch counts are.
\<close>

theorem Signature_batched:
  "GemmStridedBatchedParams_Signature p =
     GemmParams_Signature (dense_of p) @ ''_B_'' @ show_int (sint (batch p)) \<and>
   GemmStridedBatchedParams_Signature example_batched = ''NN_64_32_16_B_4'' \<and>
   (batch p \<noteq> 1 \<longrightarrow>
      GemmStridedBatchedParams_Signature p \<noteq> GemmParams_Signature (dense_of p)) \<and>
   (GemmStridedBatchedParams_Signature (p\<lparr>batch := x\<rparr>) =
    GemmStridedBatchedParams_Signature (p\<lparr>batch := y\<rparr>) \<longleftrightarrow> x = y)"
proof -
  have "GemmStridedBatchedParams_Signature example_batched = ''NN_64_32_16_B_4''"
    by (simp add: Signature_batched_unfold Signature_dense_unfold dense_of_def
        example_batched_def show_int_examples)
  with Signature_batched_unfold [of p] Signature_batched_neq_dense [of p]
    Signature_batched_batch_iff [where p = p and x = x and y = y]
  show ?thesis by blast
qed

theorem Signature_batched_witness:
  "batch example_batched \<noteq> 1 \<and>
   GemmStridedBatchedParams_Signature example_batched \<noteq>
     GemmParams_Signature (dense_of example_batched)"
proof -
  have h: "batch example_batched \<noteq> 1" by (simp add: example_batched_def)
  with Signature_batched [where p = example_batched and x = 4 and y = 4] show ?thesis by blast
qed

section \<open>Sizes\<close>

text \<open>
  Claim C6. For a dense descriptor \<^verbatim>\<open>GetSizeA\<close> is \<open>sizeof T * lda\<close> times \<open>k\<close> when
  \<open>transa\<close> is \<^verbatim>\<open>n\<close> or \<^verbatim>\<open>N\<close> and times \<open>m\<close> otherwise, \<^verbatim>\<open>GetSizeB\<close> is
  \<open>sizeof T * ldb\<close> times \<open>n\<close> when \<open>transb\<close> is \<^verbatim>\<open>n\<close> or \<^verbatim>\<open>N\<close> and times \<open>k\<close>
  otherwise, and \<^verbatim>\<open>GetSizeC\<close> is \<open>sizeof T * ldc * n\<close>, all in \<^verbatim>\<open>size_t\<close>
  arithmetic. A transpose character other than \<^verbatim>\<open>n\<close> and \<^verbatim>\<open>N\<close> gives the sizes
  that \<^verbatim>\<open>T\<close> gives. \<^verbatim>\<open>GetSize(false)\<close> is \<^verbatim>\<open>GetSizeC()\<close>, and \<^verbatim>\<open>GetSize(true)\<close> is
  the sum of the three. Where a product of the three factors, read as \<^verbatim>\<open>size_t\<close>
  values, stays below \<open>2 ^ 64\<close>, the size is that product of natural numbers.
\<close>

theorem GetSize_dense:
  "GemmParams_GetSizeA T p =
     sizeof T * lda p * (if transa p = CHR ''n'' \<or> transa p = CHR ''N'' then k p else m p) \<and>
   GemmParams_GetSizeB T p =
     sizeof T * ldb p * (if transb p = CHR ''n'' \<or> transb p = CHR ''N'' then n p else k p) \<and>
   GemmParams_GetSizeC T p = sizeof T * ldc p * n p \<and>
   (transa p \<noteq> CHR ''n'' \<and> transa p \<noteq> CHR ''N'' \<longrightarrow>
      GemmParams_GetSizeA T p = GemmParams_GetSizeA T (p\<lparr>transa := CHR ''T''\<rparr>)) \<and>
   (transb p \<noteq> CHR ''n'' \<and> transb p \<noteq> CHR ''N'' \<longrightarrow>
      GemmParams_GetSizeB T p = GemmParams_GetSizeB T (p\<lparr>transb := CHR ''T''\<rparr>)) \<and>
   GemmParams_GetSize T False p = GemmParams_GetSizeC T p \<and>
   GemmParams_GetSize T True p =
     GemmParams_GetSizeA T p + GemmParams_GetSizeB T p + GemmParams_GetSizeC T p \<and>
   (let rows = (if transa p = CHR ''n'' \<or> transa p = CHR ''N'' then k p else m p)
    in unat (sizeof T) * unat (lda p) * unat rows < 2 ^ 64 \<longrightarrow>
       unat (GemmParams_GetSizeA T p) = unat (sizeof T) * unat (lda p) * unat rows) \<and>
   (let rows = (if transb p = CHR ''n'' \<or> transb p = CHR ''N'' then n p else k p)
    in unat (sizeof T) * unat (ldb p) * unat rows < 2 ^ 64 \<longrightarrow>
       unat (GemmParams_GetSizeB T p) = unat (sizeof T) * unat (ldb p) * unat rows) \<and>
   (unat (sizeof T) * unat (ldc p) * unat (n p) < 2 ^ 64 \<longrightarrow>
      unat (GemmParams_GetSizeC T p) = unat (sizeof T) * unat (ldc p) * unat (n p))"
proof -
  have sa: "let rows = (if transa p = CHR ''n'' \<or> transa p = CHR ''N'' then k p else m p)
    in unat (sizeof T) * unat (lda p) * unat rows < 2 ^ 64 \<longrightarrow>
       unat (GemmParams_GetSizeA T p) = unat (sizeof T) * unat (lda p) * unat rows"
    unfolding GemmParams_GetSizeA_def Let_def using unat_mult3 by blast
  have sb: "let rows = (if transb p = CHR ''n'' \<or> transb p = CHR ''N'' then n p else k p)
    in unat (sizeof T) * unat (ldb p) * unat rows < 2 ^ 64 \<longrightarrow>
       unat (GemmParams_GetSizeB T p) = unat (sizeof T) * unat (ldb p) * unat rows"
    unfolding GemmParams_GetSizeB_def Let_def using unat_mult3 by blast
  have sc: "unat (sizeof T) * unat (ldc p) * unat (n p) < 2 ^ 64 \<longrightarrow>
      unat (GemmParams_GetSizeC T p) = unat (sizeof T) * unat (ldc p) * unat (n p)"
    unfolding GemmParams_GetSizeC_def using unat_mult3 by blast
  have rest: "GemmParams_GetSizeA T p =
     sizeof T * lda p * (if transa p = CHR ''n'' \<or> transa p = CHR ''N'' then k p else m p) \<and>
   GemmParams_GetSizeB T p =
     sizeof T * ldb p * (if transb p = CHR ''n'' \<or> transb p = CHR ''N'' then n p else k p) \<and>
   GemmParams_GetSizeC T p = sizeof T * ldc p * n p \<and>
   (transa p \<noteq> CHR ''n'' \<and> transa p \<noteq> CHR ''N'' \<longrightarrow>
      GemmParams_GetSizeA T p = GemmParams_GetSizeA T (p\<lparr>transa := CHR ''T''\<rparr>)) \<and>
   (transb p \<noteq> CHR ''n'' \<and> transb p \<noteq> CHR ''N'' \<longrightarrow>
      GemmParams_GetSizeB T p = GemmParams_GetSizeB T (p\<lparr>transb := CHR ''T''\<rparr>)) \<and>
   GemmParams_GetSize T False p = GemmParams_GetSizeC T p \<and>
   GemmParams_GetSize T True p =
     GemmParams_GetSizeA T p + GemmParams_GetSizeB T p + GemmParams_GetSizeC T p"
    by (simp add: GemmParams_GetSizeA_def GemmParams_GetSizeB_def GemmParams_GetSizeC_def
        GemmParams_GetSize_def)
  from rest sa sb sc show ?thesis by blast
qed

theorem GetSize_dense_witness:
  "transa (example_dense\<lparr>transa := CHR ''C''\<rparr>) \<noteq> CHR ''n'' \<and>
   transa (example_dense\<lparr>transa := CHR ''C''\<rparr>) \<noteq> CHR ''N'' \<and>
   transb (example_dense\<lparr>transa := CHR ''C''\<rparr>) = CHR ''N'' \<and>
   GemmParams_GetSizeA float32 (example_dense\<lparr>transa := CHR ''C''\<rparr>) = 4 * 64 * 64 \<and>
   GemmParams_GetSizeA float32 (example_dense\<lparr>transa := CHR ''T''\<rparr>) = 4 * 64 * 64 \<and>
   GemmParams_GetSizeB float32 (example_dense\<lparr>transa := CHR ''C''\<rparr>) = 4 * 16 * 32 \<and>
   unat (GemmParams_GetSizeA float32 (example_dense\<lparr>transa := CHR ''C''\<rparr>)) = 4 * 64 * 64 \<and>
   unat (GemmParams_GetSizeB float32 (example_dense\<lparr>transa := CHR ''C''\<rparr>)) = 4 * 16 * 32 \<and>
   unat (GemmParams_GetSizeC float32 (example_dense\<lparr>transa := CHR ''C''\<rparr>)) = 4 * 64 * 32"
  using GetSize_dense [of float32 "example_dense\<lparr>transa := CHR ''C''\<rparr>"]
  by (simp add: example_dense_def float32_def GemmParams_GetSizeA_def)

lemma unat_mult2:
  "unat x * unat y < 2 ^ 64 \<Longrightarrow> unat ((x :: 64 word) * y) = unat x * unat y"
proof -
  assume lt: "unat x * unat y < 2 ^ 64"
  have "unat (x * y) = (unat x * unat y) mod 2 ^ 64"
    by (simp add: unat_word_ariths)
  with lt show ?thesis by simp
qed

lemma GetSize_batched_word:
  "GemmStridedBatchedParams_GetSizeA T p = batch p * GemmParams_GetSizeA T (dense_of p) \<and>
   GemmStridedBatchedParams_GetSizeB T p = batch p * GemmParams_GetSizeB T (dense_of p) \<and>
   GemmStridedBatchedParams_GetSizeC T p = batch p * GemmParams_GetSizeC T (dense_of p)"
  by (simp add: GemmStridedBatchedParams_GetSizeA_def GemmStridedBatchedParams_GetSizeB_def
      GemmStridedBatchedParams_GetSizeC_def GemmParams_GetSizeA_def GemmParams_GetSizeB_def
      GemmParams_GetSizeC_def dense_of_def)

text \<open>
  Claim C7. Each of \<^verbatim>\<open>GetSizeA\<close>, \<^verbatim>\<open>GetSizeB\<close>, \<^verbatim>\<open>GetSizeC\<close> of a batched descriptor is
  \<open>batch\<close> times the dense size computed from the same \<open>transa\<close>, \<open>transb\<close>, \<open>m\<close>, \<open>n\<close>,
  \<open>k\<close>, \<open>lda\<close>, \<open>ldb\<close>, \<open>ldc\<close>, in \<^verbatim>\<open>size_t\<close> arithmetic, and it is the dense size
  when \<open>batch = 1\<close>. Where the batch count times the dense size, read as \<^verbatim>\<open>size_t\<close>
  values, stays below \<open>2 ^ 64\<close>, the batched size is that product of natural numbers.
\<close>

theorem GetSize_batched:
  "GemmStridedBatchedParams_GetSizeA T p = batch p * GemmParams_GetSizeA T (dense_of p) \<and>
   GemmStridedBatchedParams_GetSizeB T p = batch p * GemmParams_GetSizeB T (dense_of p) \<and>
   GemmStridedBatchedParams_GetSizeC T p = batch p * GemmParams_GetSizeC T (dense_of p) \<and>
   (batch p = 1 \<longrightarrow>
      GemmStridedBatchedParams_GetSizeA T p = GemmParams_GetSizeA T (dense_of p) \<and>
      GemmStridedBatchedParams_GetSizeB T p = GemmParams_GetSizeB T (dense_of p) \<and>
      GemmStridedBatchedParams_GetSizeC T p = GemmParams_GetSizeC T (dense_of p)) \<and>
   (unat (batch p) * unat (GemmParams_GetSizeA T (dense_of p)) < 2 ^ 64 \<longrightarrow>
      unat (GemmStridedBatchedParams_GetSizeA T p) =
        unat (batch p) * unat (GemmParams_GetSizeA T (dense_of p))) \<and>
   (unat (batch p) * unat (GemmParams_GetSizeB T (dense_of p)) < 2 ^ 64 \<longrightarrow>
      unat (GemmStridedBatchedParams_GetSizeB T p) =
        unat (batch p) * unat (GemmParams_GetSizeB T (dense_of p))) \<and>
   (unat (batch p) * unat (GemmParams_GetSizeC T (dense_of p)) < 2 ^ 64 \<longrightarrow>
      unat (GemmStridedBatchedParams_GetSizeC T p) =
        unat (batch p) * unat (GemmParams_GetSizeC T (dense_of p)))"
  using GetSize_batched_word [of T p]
    unat_mult2 [of "batch p" "GemmParams_GetSizeA T (dense_of p)"]
    unat_mult2 [of "batch p" "GemmParams_GetSizeB T (dense_of p)"]
    unat_mult2 [of "batch p" "GemmParams_GetSizeC T (dense_of p)"]
  by simp

theorem GetSize_batched_witness:
  "batch (example_batched\<lparr>batch := 1\<rparr>) = 1 \<and>
   GemmStridedBatchedParams_GetSizeC float32 (example_batched\<lparr>batch := 1\<rparr>) =
     GemmParams_GetSizeC float32 example_dense \<and>
   GemmStridedBatchedParams_GetSizeA float32 example_batched =
     4 * GemmParams_GetSizeA float32 example_dense \<and>
   GemmStridedBatchedParams_GetSizeB float32 example_batched =
     4 * GemmParams_GetSizeB float32 example_dense \<and>
   GemmStridedBatchedParams_GetSizeC float32 example_batched =
     4 * GemmParams_GetSizeC float32 example_dense \<and>
   unat (batch example_batched) * unat (GemmParams_GetSizeA float32 (dense_of example_batched))
     < 2 ^ 64 \<and>
   unat (batch example_batched) * unat (GemmParams_GetSizeB float32 (dense_of example_batched))
     < 2 ^ 64 \<and>
   unat (batch example_batched) * unat (GemmParams_GetSizeC float32 (dense_of example_batched))
     < 2 ^ 64 \<and>
   unat (GemmStridedBatchedParams_GetSizeA float32 example_batched) = 4 * (4 * 64 * 16) \<and>
   unat (GemmStridedBatchedParams_GetSizeB float32 example_batched) = 4 * (4 * 16 * 32) \<and>
   unat (GemmStridedBatchedParams_GetSizeC float32 example_batched) = 4 * (4 * 64 * 32)"
  using GetSize_batched [of float32 "example_batched\<lparr>batch := 1\<rparr>"]
    GetSize_batched [of float32 example_batched]
  by (simp add: example_batched_def example_dense_def dense_of_def GemmParams_GetSizeA_def
      GemmParams_GetSizeB_def GemmParams_GetSizeC_def float32_def)

section \<open>Delete\<close>

lemma released_raw_delete: "released (raw_delete q w) = released w @ [q]"
  by (simp add: raw_delete_def)

lemma Delete_body_released:
  "released (Delete_body p w) =
     released w @ c p # (if duplicate_inputs p then [a p, b p] else [])"
  by (simp add: Delete_body_def Let_def released_raw_delete)

lemma Delete_body_frame:
  "objs (Delete_body p w) = objs w \<and> mem (Delete_body p w) = mem w \<and>
   capacity (Delete_body p w) = capacity w \<and> device (Delete_body p w) = device w"
  by (simp add: Delete_body_def Let_def raw_delete_def)

text \<open>
  Claim C10. \<^verbatim>\<open>Delete\<close> tests nothing about where its receiver comes from. On every
  descriptor and in every state it passes \<open>c\<close> to \<^verbatim>\<open>raw_delete\<close>, and then \<open>a\<close> and \<open>b\<close>
  exactly when \<open>duplicate_inputs\<close> is set; on a descriptor as its constructor leaves
  it, which borrows all three buffers, it passes \<open>c\<close> alone. It has no failing
  outcome: its result is a state, whatever the receiver. The device memory is as
  before.
\<close>

theorem Delete_unchecked:
  "released (GemmParams_Delete p w) =
     released w @ c p # (if duplicate_inputs p then [a p, b p] else []) \<and>
   released (GemmStridedBatchedParams_Delete q w') =
     released w' @ c q # (if duplicate_inputs q then [a q, b q] else []) \<and>
   released (GemmParams_Delete (GemmParams_ctor raw) w) = released w @ [c raw] \<and>
   released (GemmStridedBatchedParams_Delete (GemmStridedBatchedParams_ctor raw') w') =
     released w' @ [c raw'] \<and>
   mem (GemmParams_Delete p w) = mem w \<and>
   mem (GemmStridedBatchedParams_Delete q w') = mem w'"
  by (simp add: GemmParams_Delete_def GemmStridedBatchedParams_Delete_def Delete_body_released
      Delete_body_frame GemmParams_ctor_def GemmStridedBatchedParams_ctor_def)

section \<open>The tolerance sweep\<close>

lemma fold_keep_last:
  "fold (\<lambda>x acc. if P x then g x else acc) xs s =
     (if filter P xs = [] then s else g (last (filter P xs)))"
  by (induction xs arbitrary: s) simp_all

lemma fold_nested_product:
  "fold (\<lambda>x. fold (f x) ys) xs s = fold (\<lambda>xy. f (fst xy) (snd xy)) (List.product xs ys) s"
  by (induction xs arbitrary: s) (simp_all add: fold_map comp_def)

lemma sweep_last:
  "sweep close =
     (if filter (\<lambda>xy. close (snd xy) (fst xy)) (List.product atols rtols) = [] then (1, 1)
      else last (filter (\<lambda>xy. close (snd xy) (fst xy)) (List.product atols rtols)))"
proof -
  have "sweep close =
      fold (\<lambda>xy acc. if close (snd xy) (fst xy) then xy else acc) (List.product atols rtols) (1, 1)"
    unfolding sweep_def
    by (simp add: fold_nested_product [where f = "\<lambda>x y acc. if close y x then (x, y) else acc"]
        cong: if_cong)
  then show ?thesis by (simp add: fold_keep_last [where g = "\<lambda>x. x"])
qed

lemma one_not_atol: "1 \<notin> set atols" and one_not_rtol: "1 \<notin> set rtols"
  by (simp_all add: atols_def rtols_def)

lemma filter_product_empty:
  "filter (\<lambda>xy. close (snd xy) (fst xy)) (List.product xs ys) = [] \<longleftrightarrow>
     (\<forall>x\<in>set xs. \<forall>y\<in>set ys. \<not> close y x)"
  by (auto simp add: filter_empty_conv)

lemma verdict_sweep:
  "verdict (sweep close) =
     (if \<forall>atol\<in>set atols. \<forall>rtol\<in>set rtols. \<not> close rtol atol then (FAIL, None)
      else (OK, Some (last (filter (\<lambda>xy. close (snd xy) (fst xy)) (List.product atols rtols)))))"
proof (cases "filter (\<lambda>xy. close (snd xy) (fst xy)) (List.product atols rtols) = []")
  case True
  then have "sweep close = (1, 1)" by (simp add: sweep_last)
  with True show ?thesis by (simp add: verdict_def filter_product_empty)
next
  case False
  let ?ps = "filter (\<lambda>xy. close (snd xy) (fst xy)) (List.product atols rtols)"
  from False have sw: "sweep close = last ?ps" by (simp add: sweep_last)
  from False have "last ?ps \<in> set ?ps" by (rule last_in_set)
  then have "fst (last ?ps) \<in> set atols" by auto
  with one_not_atol have "fst (last ?ps) \<noteq> 1" by metis
  with sw False show ?thesis by (simp add: verdict_def filter_product_empty)
qed

lemma verdict_sweep_props:
  assumes "verdict (sweep close) = (st, logged)"
  shows "(st = FAIL \<longleftrightarrow> (\<forall>atol\<in>set atols. \<forall>rtol\<in>set rtols. \<not> close rtol atol)) \<and>
     (st \<noteq> FAIL \<longrightarrow> st = OK \<and>
        logged = Some (last (filter (\<lambda>(atol, rtol). close rtol atol) (List.product atols rtols)))) \<and>
     (st = FAIL \<longrightarrow> logged = None) \<and> logged \<noteq> Some (1, 1)"
proof (cases "\<forall>atol\<in>set atols. \<forall>rtol\<in>set rtols. \<not> close rtol atol")
  case True
  have "verdict (sweep close) = (FAIL, None)"
    unfolding verdict_sweep using True by (rule if_P)
  with assms have "st = FAIL" "logged = None" by simp_all
  with True show ?thesis by simp
next
  case False
  let ?ps = "filter (\<lambda>xy. close (snd xy) (fst xy)) (List.product atols rtols)"
  have "verdict (sweep close) = (OK, Some (last ?ps))"
    unfolding verdict_sweep using False by (rule if_not_P)
  with assms have r: "st = OK" "logged = Some (last ?ps)" by simp_all
  from False have "?ps \<noteq> []" by (simp add: filter_product_empty)
  then have "last ?ps \<in> set ?ps" by (rule last_in_set)
  then have "fst (last ?ps) \<in> set atols" by auto
  with one_not_atol have "last ?ps \<noteq> (1, 1)" by (metis fst_conv)
  with r False show ?thesis by (simp add: case_prod_unfold)
qed

lemma NumericalCheck_body_Inr:
  "from_blob_to_float T w p cnt = Inr ref \<Longrightarrow> from_blob_to_float T w q cnt = Inr oth \<Longrightarrow>
   NumericalCheck_body T cnt p q w = Inr (verdict (sweep (allclose ref oth)))"
  by (simp add: NumericalCheck_body_def)

lemma NumericalCheck_body_props:
  assumes "from_blob_to_float T w p cnt = Inr ref" and "from_blob_to_float T w q cnt = Inr oth"
  shows "\<exists>st logged. NumericalCheck_body T cnt p q w = Inr (st, logged) \<and>
     (st = FAIL \<longleftrightarrow> (\<forall>atol\<in>set atols. \<forall>rtol\<in>set rtols. \<not> allclose ref oth rtol atol)) \<and>
     (st \<noteq> FAIL \<longrightarrow> st = OK \<and>
        logged = Some (last (filter (\<lambda>(atol, rtol). allclose ref oth rtol atol)
                               (List.product atols rtols)))) \<and>
     (st = FAIL \<longrightarrow> logged = None) \<and> logged \<noteq> Some (1, 1)"
proof -
  obtain st logged where v: "verdict (sweep (allclose ref oth)) = (st, logged)"
    by (cases "verdict (sweep (allclose ref oth))")
  from assms v have "NumericalCheck_body T cnt p q w = Inr (st, logged)"
    by (simp add: NumericalCheck_body_Inr)
  with verdict_sweep_props [OF v] show ?thesis by blast
qed

text \<open>
  Claim C2. Where the two result buffers can be read, \<^verbatim>\<open>NumericalCheck\<close> returns: with
  \<^verbatim>\<open>FAIL\<close> exactly when no pair of \<open>atols\<close> and \<open>rtols\<close> satisfies the all-close
  predicate on the two buffers, and otherwise with \<^verbatim>\<open>OK\<close>, and the pair it logs is the
  last one that satisfies the predicate in the order of \<open>List.product atols rtols\<close>,
  which is the order of the loops (\<open>atol\<close> outer, \<open>rtol\<close> inner, each list as declared).
  \<open>1\<close> is in neither list, and the pair \<open>(1, 1)\<close> is never logged. This holds for
  both descriptor types.
\<close>

theorem NumericalCheck_sweep:
  "(from_blob_to_float T w (c this) (ldc this * n this) = Inr ref \<and>
    from_blob_to_float T w (c other) (ldc this * n this) = Inr oth \<longrightarrow>
    (\<exists>st logged. GemmParams_NumericalCheck T this other w = Inr (st, logged) \<and>
       (st = FAIL \<longleftrightarrow> (\<forall>atol\<in>set atols. \<forall>rtol\<in>set rtols. \<not> allclose ref oth rtol atol)) \<and>
       (st \<noteq> FAIL \<longrightarrow> st = OK \<and>
          logged = Some (last (filter (\<lambda>(atol, rtol). allclose ref oth rtol atol)
                                 (List.product atols rtols)))) \<and>
       (st = FAIL \<longrightarrow> logged = None) \<and> logged \<noteq> Some (1, 1))) \<and>
   (from_blob_to_float T' w' (c this') (batch this' * stride_c this') = Inr ref' \<and>
    from_blob_to_float T' w' (c other') (batch this' * stride_c this') = Inr oth' \<longrightarrow>
    (\<exists>st logged. GemmStridedBatchedParams_NumericalCheck T' this' other' w' = Inr (st, logged) \<and>
       (st = FAIL \<longleftrightarrow> (\<forall>atol\<in>set atols. \<forall>rtol\<in>set rtols. \<not> allclose ref' oth' rtol atol)) \<and>
       (st \<noteq> FAIL \<longrightarrow> st = OK \<and>
          logged = Some (last (filter (\<lambda>(atol, rtol). allclose ref' oth' rtol atol)
                                 (List.product atols rtols)))) \<and>
       (st = FAIL \<longrightarrow> logged = None) \<and> logged \<noteq> Some (1, 1))) \<and>
   1 \<notin> set atols \<and> 1 \<notin> set rtols \<and> (1, 1) \<notin> set (List.product atols rtols)"
proof -
  have sentinel: "1 \<notin> set atols \<and> 1 \<notin> set rtols \<and> (1, 1) \<notin> set (List.product atols rtols)"
    using one_not_atol one_not_rtol by simp
  show ?thesis
    unfolding GemmParams_NumericalCheck_def GemmStridedBatchedParams_NumericalCheck_def
    using NumericalCheck_body_props [of T w "c this" "ldc this * n this" ref "c other" oth]
      NumericalCheck_body_props [of T' w' "c this'" "batch this' * stride_c this'" ref'
        "c other'" oth'] sentinel
    by blast
qed

theorem NumericalCheck_sweep_witness:
  "from_blob_to_float float32 example_world (c (unit_dense 0))
     (ldc (unit_dense 0) * n (unit_dense 0)) = Inr [0] \<and>
   from_blob_to_float float32 example_world (c (unit_dense 4))
     (ldc (unit_dense 0) * n (unit_dense 0)) = Inr [7 / 64] \<and>
   from_blob_to_float float32 example_world (c (unit_batched 0 1))
     (batch (unit_batched 0 1) * stride_c (unit_batched 0 1)) = Inr [0] \<and>
   from_blob_to_float float32 example_world (c (unit_batched 4 1))
     (batch (unit_batched 0 1) * stride_c (unit_batched 0 1)) = Inr [7 / 64] \<and>
   GemmParams_NumericalCheck float32 (unit_dense 0) (unit_dense 4) example_world =
     Inr (OK, Some (1 / 10, 1 / 10)) \<and>
   GemmStridedBatchedParams_NumericalCheck float32 (unit_batched 0 1) (unit_batched 4 1)
     example_world = Inr (OK, Some (1 / 10, 1 / 10)) \<and>
   last (filter (\<lambda>(atol, rtol). allclose [0] [7 / 64] rtol atol) (List.product atols rtols)) =
     (1 / 10, 1 / 10)"
proof -
  note t = NumericalCheck_sweep [of float32 example_world "unit_dense 0" "[0]"
      "unit_dense 4" "[7 / 64]" float32 example_world "unit_batched 0 1" "[0]"
      "unit_batched 4 1" "[7 / 64]"]
  from t ex_ref_d ex_oth_d ex_check
  have "last (filter (\<lambda>(atol, rtol). allclose [0] [7 / 64] rtol atol) (List.product atols rtols)) =
     (1 / 10, 1 / 10)"
    by auto
  with ex_ref_d ex_oth_d ex_ref_b ex_oth_b ex_check ex_check_b show ?thesis by simp
qed

section \<open>The predicate that is swept\<close>

lemma slice_slice:
  "Suc i * sz \<le> tot \<Longrightarrow> slice (slice xs p tot) (i * sz) sz = slice xs (p + i * sz) sz"
  by (simp add: slice_def drop_take min_def add.commute)

lemma from_blob_to_float_Inr:
  assumes "from_blob_to_float T w p cnt = Inr xs"
  shows "length xs = nat (sint cnt) \<and>
     (\<forall>i<nat (sint cnt).
        xs ! i = to_float T (slice (mem w) (p + i * unat (sizeof T)) (unat (sizeof T))))"
proof -
  let ?sz = "unat (sizeof T)" and ?cnt = "nat (sint cnt)"
  from assms have xs: "xs = map (\<lambda>i. to_float T (slice (slice (mem w) p (?cnt * ?sz))
      (i * ?sz) ?sz)) [0..<?cnt]"
    by (auto simp add: from_blob_to_float_def read_bytes_def split: if_splits)
  have "\<forall>i<?cnt. xs ! i = to_float T (slice (mem w) (p + i * ?sz) ?sz)"
  proof (intro allI impI)
    fix i assume i: "i < ?cnt"
    then have "Suc i * ?sz \<le> ?cnt * ?sz" by (simp add: Suc_leI mult_le_mono1 del: mult_Suc)
    then have "slice (slice (mem w) p (?cnt * ?sz)) (i * ?sz) ?sz =
        slice (mem w) (p + i * ?sz) ?sz"
      by (rule slice_slice)
    with i xs show "xs ! i = to_float T (slice (mem w) (p + i * ?sz) ?sz)" by simp
  qed
  with xs show ?thesis by simp
qed

lemma allclose_nth:
  "length ref = cnt \<Longrightarrow> length oth = cnt \<Longrightarrow>
   allclose ref oth = (\<lambda>rtol atol. \<forall>i<cnt. \<bar>ref ! i - oth ! i\<bar> \<le> atol + rtol * \<bar>oth ! i\<bar>)"
  by (auto simp add: allclose_def list_all2_conv_all_nth fun_eq_iff)

lemma NumericalCheck_body_elementwise:
  assumes r: "from_blob_to_float T w p cnt = Inr ref" and o: "from_blob_to_float T w q cnt = Inr oth"
  shows "length ref = nat (sint cnt) \<and> length oth = nat (sint cnt) \<and>
     (\<forall>i<nat (sint cnt).
        ref ! i = to_float T (slice (mem w) (p + i * unat (sizeof T)) (unat (sizeof T))) \<and>
        oth ! i = to_float T (slice (mem w) (q + i * unat (sizeof T)) (unat (sizeof T)))) \<and>
     NumericalCheck_body T cnt p q w =
       Inr (verdict (sweep (\<lambda>rtol atol.
              \<forall>i<nat (sint cnt). \<bar>ref ! i - oth ! i\<bar> \<le> atol + rtol * \<bar>oth ! i\<bar>)))"
proof -
  from from_blob_to_float_Inr [OF r] from_blob_to_float_Inr [OF o]
  have l: "length ref = nat (sint cnt)" "length oth = nat (sint cnt)"
    and e: "\<forall>i<nat (sint cnt).
        ref ! i = to_float T (slice (mem w) (p + i * unat (sizeof T)) (unat (sizeof T))) \<and>
        oth ! i = to_float T (slice (mem w) (q + i * unat (sizeof T)) (unat (sizeof T)))"
    by simp_all
  from r o have "NumericalCheck_body T cnt p q w = Inr (verdict (sweep (allclose ref oth)))"
    by (rule NumericalCheck_body_Inr)
  with allclose_nth [OF l] l e show ?thesis by simp
qed

text \<open>
  Claim C3, amended. Where the two result buffers can be read, both as \<open>ldc * n\<close>
  elements for a dense descriptor and as \<open>batch * stride_c\<close> elements for a batched
  one, each element converted by \<open>to_float\<close>, the predicate \<^verbatim>\<open>NumericalCheck\<close> sweeps
  holds for \<open>rtol\<close> and \<open>atol\<close> exactly when every pair of a reference element \<open>r\<close> and
  a candidate element \<open>c\<close> at the same index has \<open>\<bar>r - c\<bar> \<le> atol + rtol * \<bar>c\<bar>\<close>: the
  relative term is taken from the candidate, which is the second operand of
  \<^verbatim>\<open>at::allclose\<close>. The element count is that of the receiver for both buffers.
\<close>

theorem NumericalCheck_allclose:
  "(from_blob_to_float T w (c this) (ldc this * n this) = Inr ref \<and>
    from_blob_to_float T w (c other) (ldc this * n this) = Inr oth \<longrightarrow>
    length ref = nat (sint (ldc this * n this)) \<and> length oth = nat (sint (ldc this * n this)) \<and>
    (\<forall>i<nat (sint (ldc this * n this)).
       ref ! i = to_float T (slice (mem w) (c this + i * unat (sizeof T)) (unat (sizeof T))) \<and>
       oth ! i = to_float T (slice (mem w) (c other + i * unat (sizeof T)) (unat (sizeof T)))) \<and>
    GemmParams_NumericalCheck T this other w =
      Inr (verdict (sweep (\<lambda>rtol atol.
             \<forall>i<nat (sint (ldc this * n this)).
               \<bar>ref ! i - oth ! i\<bar> \<le> atol + rtol * \<bar>oth ! i\<bar>)))) \<and>
   (from_blob_to_float T' w' (c this') (batch this' * stride_c this') = Inr ref' \<and>
    from_blob_to_float T' w' (c other') (batch this' * stride_c this') = Inr oth' \<longrightarrow>
    length ref' = nat (sint (batch this' * stride_c this')) \<and>
    length oth' = nat (sint (batch this' * stride_c this')) \<and>
    (\<forall>i<nat (sint (batch this' * stride_c this')).
       ref' ! i = to_float T' (slice (mem w') (c this' + i * unat (sizeof T')) (unat (sizeof T'))) \<and>
       oth' ! i = to_float T' (slice (mem w') (c other' + i * unat (sizeof T')) (unat (sizeof T')))) \<and>
    GemmStridedBatchedParams_NumericalCheck T' this' other' w' =
      Inr (verdict (sweep (\<lambda>rtol atol.
             \<forall>i<nat (sint (batch this' * stride_c this')).
               \<bar>ref' ! i - oth' ! i\<bar> \<le> atol + rtol * \<bar>oth' ! i\<bar>))))"
  unfolding GemmParams_NumericalCheck_def GemmStridedBatchedParams_NumericalCheck_def
  using NumericalCheck_body_elementwise [of T w "c this" "ldc this * n this" ref "c other" oth]
    NumericalCheck_body_elementwise [of T' w' "c this'" "batch this' * stride_c this'" ref'
      "c other'" oth']
  by blast

theorem NumericalCheck_allclose_witness:
  "from_blob_to_float float32 example_world (c (unit_dense 0))
     (ldc (unit_dense 0) * n (unit_dense 0)) = Inr [0] \<and>
   from_blob_to_float float32 example_world (c (unit_dense 4))
     (ldc (unit_dense 0) * n (unit_dense 0)) = Inr [7 / 64] \<and>
   from_blob_to_float float32 example_world (c (unit_batched 0 1))
     (batch (unit_batched 0 1) * stride_c (unit_batched 0 1)) = Inr [0] \<and>
   from_blob_to_float float32 example_world (c (unit_batched 4 1))
     (batch (unit_batched 0 1) * stride_c (unit_batched 0 1)) = Inr [7 / 64] \<and>
   GemmParams_NumericalCheck float32 (unit_dense 0) (unit_dense 4) example_world =
     Inr (verdict (sweep (\<lambda>rtol atol.
            \<forall>i<nat (sint (ldc (unit_dense 0) * n (unit_dense 0))).
              \<bar>[0] ! i - [7 / 64] ! i\<bar> \<le> atol + rtol * \<bar>[7 / 64] ! i\<bar>))) \<and>
   GemmStridedBatchedParams_NumericalCheck float32 (unit_batched 0 1) (unit_batched 4 1)
     example_world =
     Inr (verdict (sweep (\<lambda>rtol atol.
            \<forall>i<nat (sint (batch (unit_batched 0 1) * stride_c (unit_batched 0 1))).
              \<bar>[0] ! i - [7 / 64] ! i\<bar> \<le> atol + rtol * \<bar>[7 / 64] ! i\<bar>)))"
  using NumericalCheck_allclose [of float32 example_world "unit_dense 0" "[0]"
      "unit_dense 4" "[7 / 64]" float32 example_world "unit_batched 0 1" "[0]"
      "unit_batched 4 1" "[7 / 64]"] ex_ref_d ex_oth_d ex_ref_b ex_oth_b
  by blast

text \<open>
  Claim C3 as it is worded takes the relative term from the reference element. With
  the reference buffer holding \<open>0\<close> and the candidate buffer \<open>7 / 64\<close>, the predicate
  of \<^verbatim>\<open>NumericalCheck\<close> holds for \<open>atol = rtol = 1 / 10\<close>, and the check returns \<^verbatim>\<open>OK\<close>
  with that pair; the inequality of the claim fails there, and a sweep over it would
  return \<^verbatim>\<open>FAIL\<close>.
\<close>

theorem NumericalCheck_allclose_counterexample:
  "from_blob_to_float float32 example_world (c (unit_dense 0))
     (ldc (unit_dense 0) * n (unit_dense 0)) = Inr [0] \<and>
   from_blob_to_float float32 example_world (c (unit_dense 4))
     (ldc (unit_dense 0) * n (unit_dense 0)) = Inr [7 / 64] \<and>
   GemmParams_NumericalCheck float32 (unit_dense 0) (unit_dense 4) example_world =
     Inr (OK, Some (1 / 10, 1 / 10)) \<and>
   allclose [0] [7 / 64] (1 / 10) (1 / 10) \<and>
   \<not> allclose_by_reference [0] [7 / 64] (1 / 10) (1 / 10) \<and>
   verdict (sweep (allclose_by_reference [0] [7 / 64])) = (FAIL, None)"
  using ex_ref_d ex_oth_d ex_check
  by (simp add: ex_sweep_ref verdict_def allclose_def allclose_by_reference_def)

section \<open>DeepCopy\<close>

lemma length_slice: "p + cnt \<le> length xs \<Longrightarrow> length (slice xs p cnt) = cnt"
  by (simp add: slice_def)

lemma DeepCopy_body_frame:
  assumes "DeepCopy_body c_size a_size b_size dup this w = (r, w')"
  shows "take (length (objs w)) (objs w') = objs w \<and> take (length (mem w)) (mem w') = mem w \<and>
     released w' = released w"
  using assms
  by (auto simp add: DeepCopy_body_def new_object_def GetDevice_def raw_alloc_def
      memcpyAsync_def read_bytes_def update_object_def and_then_def Let_def length_slice
      add.assoc
      split: if_splits option.splits sum.splits prod.splits)

lemma DeepCopy_body_Inr:
  assumes "DeepCopy_body c_size a_size b_size dup this w = (Inr cp, w')"
  shows "cp = length (objs w) \<and>
     objs w' = objs w @
       [if dup
        then this\<lparr>c := length (mem w), a := length (mem w) + unat c_size,
                  b := length (mem w) + unat c_size + unat a_size, duplicate_inputs := True\<rparr>
        else this\<lparr>c := length (mem w)\<rparr>] \<and>
     mem w' = mem w @
       slice (mem w @ map (junk w) [length (mem w)..<length (mem w) + unat c_size])
         (c this) (unat c_size) @
       (if dup
        then map (junk w) [length (mem w) + unat c_size..<
                           length (mem w) + unat c_size + unat a_size] @
             map (junk w) [length (mem w) + unat c_size + unat a_size..<
                           length (mem w) + unat c_size + unat a_size + unat b_size]
        else []) \<and>
     c this \<le> length (mem w) \<and>
     live w' =
       (if dup
        then [(length (mem w) + unat c_size + unat a_size, unat b_size),
              (length (mem w) + unat c_size, unat a_size)]
        else []) @ (length (mem w), unat c_size) # live w \<and>
     released w' = released w \<and> capacity w' = capacity w \<and> device w' = device w \<and>
     junk w' = junk w"
  using assms
  by (auto simp add: DeepCopy_body_def new_object_def GetDevice_def raw_alloc_def
      memcpyAsync_def read_bytes_def update_object_def and_then_def Let_def length_slice
      add.assoc
      split: if_splits option.splits sum.splits prod.splits)

lemma DeepCopy_body_returns:
  assumes "device w \<noteq> None"
    and "length (mem w) + unat c_size + (if dup then unat a_size + unat b_size else 0) \<le> capacity w"
    and "c this + unat c_size \<le> length (mem w)"
  shows "\<exists>cp w'. DeepCopy_body c_size a_size b_size dup this w = (Inr cp, w')"
  using assms
  by (auto simp add: DeepCopy_body_def new_object_def GetDevice_def raw_alloc_def
      memcpyAsync_def read_bytes_def update_object_def and_then_def Let_def length_slice
      add.assoc
      split: if_splits option.splits sum.splits prod.splits)

lemma DeepCopy_body_copy:
  assumes "DeepCopy_body c_size a_size b_size dup this w = (Inr cp, w')"
  shows "cp = length (objs w) \<and> length (objs w') = Suc (length (objs w)) \<and>
     objs w' ! cp =
       (if dup
        then this\<lparr>c := length (mem w), a := length (mem w) + unat c_size,
                  b := length (mem w) + unat c_size + unat a_size, duplicate_inputs := True\<rparr>
        else this\<lparr>c := length (mem w)\<rparr>)"
  using DeepCopy_body_Inr [OF assms] by simp

lemma DeepCopy_body_flag:
  assumes "DeepCopy_body c_size a_size b_size dup this w = (Inr cp, w')"
  shows "duplicate_inputs (objs w' ! cp) = (dup \<or> duplicate_inputs this) \<and>
     (\<not> dup \<longrightarrow> a (objs w' ! cp) = a this \<and> b (objs w' ! cp) = b this)"
  using DeepCopy_body_copy [OF assms] by (auto split: if_splits)

lemma slice_append_left: "p + cnt \<le> length xs \<Longrightarrow> slice (xs @ ys) p cnt = slice xs p cnt"
  by (simp add: slice_def)

lemma slice_append_right: "slice (xs @ ys) (length xs) cnt = slice ys 0 cnt"
  by (simp add: slice_def)

lemma slice_all: "slice xs 0 (length xs) = xs"
  by (simp add: slice_def)

lemma DeepCopy_body_seed:
  assumes ok: "DeepCopy_body c_size a_size b_size dup this w = (Inr cp, w')"
    and src: "c this + unat c_size \<le> length (mem w)"
  shows "read_bytes w (c this) (unat c_size) = Some (slice (mem w) (c this) (unat c_size)) \<and>
     read_bytes w' (c this) (unat c_size) = Some (slice (mem w) (c this) (unat c_size)) \<and>
     read_bytes w' (c (objs w' ! cp)) (unat c_size) = Some (slice (mem w) (c this) (unat c_size))"
proof -
  let ?L = "length (mem w)" and ?nc = "unat c_size"
  let ?bs = "slice (mem w) (c this) ?nc"
  let ?rest = "if dup
        then map (junk w) [?L + ?nc..<?L + ?nc + unat a_size] @
             map (junk w) [?L + ?nc + unat a_size..<?L + ?nc + unat a_size + unat b_size]
        else []"
  from src have len: "length ?bs = ?nc" by (rule length_slice)
  from DeepCopy_body_Inr [OF ok] src
  have m: "mem w' = mem w @ ?bs @ ?rest"
    by (simp add: slice_append_left)
  from DeepCopy_body_copy [OF ok] have cc: "c (objs w' ! cp) = ?L" by (auto split: if_splits)
  have r0: "read_bytes w (c this) ?nc = Some ?bs" using src by (simp add: read_bytes_def)
  have r1: "read_bytes w' (c this) ?nc = Some ?bs"
    using src m by (simp add: read_bytes_def slice_append_left)
  have "slice (mem w') ?L ?nc = slice (?bs @ ?rest) 0 ?nc"
    unfolding m by (rule slice_append_right)
  also have "\<dots> = slice ?bs 0 ?nc" using len by (simp add: slice_append_left)
  also have "\<dots> = ?bs" using len slice_all [of ?bs] by simp
  finally have "slice (mem w') ?L ?nc = ?bs" .
  moreover have "?L + ?nc \<le> length (mem w')" using m len by simp
  ultimately have r2: "read_bytes w' (c (objs w' ! cp)) ?nc = Some ?bs"
    using cc by (simp add: read_bytes_def)
  from r0 r1 r2 show ?thesis by simp
qed

lemma DeepCopy_body_block:
  assumes "DeepCopy_body c_size a_size b_size dup this w = (Inr cp, w')"
  shows "c (objs w' ! cp) = length (mem w) \<and>
     (c (objs w' ! cp), unat c_size) \<in> set (live w') \<and>
     c (objs w' ! cp) + unat c_size \<le> length (mem w')"
proof -
  have "length (slice (mem w @ map (junk w) [length (mem w)..<length (mem w) + unat c_size])
      (c this) (unat c_size)) = unat c_size"
    using DeepCopy_body_Inr [OF assms] by (simp add: length_slice)
  with DeepCopy_body_Inr [OF assms] DeepCopy_body_copy [OF assms] show ?thesis
    by (auto split: if_splits)
qed

lemma take_prefix_nth:
  assumes "take (length xs) ys = xs"
  shows "length xs \<le> length ys \<and> (\<forall>i<length xs. ys ! i = xs ! i)"
proof -
  have "length (take (length xs) ys) = length xs" using assms by simp
  then have l: "length xs \<le> length ys" by simp
  have "\<forall>i<length xs. ys ! i = xs ! i"
  proof (intro allI impI)
    fix i assume "i < length xs"
    then have "take (length xs) ys ! i = ys ! i" by simp
    with assms show "ys ! i = xs ! i" by simp
  qed
  with l show ?thesis by simp
qed

lemma DeepCopy_body_untouched:
  assumes "DeepCopy_body c_size a_size b_size dup this w = (r, w')"
  shows "untouched w w'"
  unfolding untouched_def
  using DeepCopy_body_frame [OF assms] take_prefix_nth [of "objs w" "objs w'"]
    take_prefix_nth [of "mem w" "mem w'"]
  by simp

lemma DeepCopy_body_seeded:
  assumes ok: "DeepCopy_body c_size a_size b_size dup this w = (Inr cp, w')"
  shows "seeded_output c_size this (objs w' ! cp) w w'"
  unfolding seeded_output_def
  using DeepCopy_body_seed [OF ok] DeepCopy_body_block [OF ok] by auto

lemma DeepCopy_body_same_shape:
  assumes ok: "DeepCopy_body c_size a_size b_size dup this w = (Inr cp, w')"
  shows "cp = length (objs w) \<and> length (objs w') = Suc (length (objs w)) \<and>
     same_shape (objs w' ! cp) this \<and>
     GemmParams.more (objs w' ! cp) = GemmParams.more this"
  unfolding same_shape_def
  using DeepCopy_body_copy [OF ok] by (auto split: if_splits)

lemma DeepCopy_body_summary:
  assumes "DeepCopy_body c_size a_size b_size dup this w = (r, w')"
  shows "untouched w w' \<and>
     (\<forall>cp. r = Inr cp \<longrightarrow>
        cp = length (objs w) \<and> length (objs w') = Suc (length (objs w)) \<and>
        same_shape (objs w' ! cp) this \<and>
        GemmParams.more (objs w' ! cp) = GemmParams.more this \<and>
        seeded_output c_size this (objs w' ! cp) w w')"
proof (intro conjI allI impI)
  show "untouched w w'" using assms by (rule DeepCopy_body_untouched)
next
  fix cp assume "r = Inr cp"
  with assms have ok: "DeepCopy_body c_size a_size b_size dup this w = (Inr cp, w')" by simp
  note s = DeepCopy_body_same_shape [OF ok]
  from s show "cp = length (objs w)" by blast
  from s show "length (objs w') = Suc (length (objs w))" by blast
  from s show "same_shape (objs w' ! cp) this" by blast
  from s show "GemmParams.more (objs w' ! cp) = GemmParams.more this" by blast
  from ok show "seeded_output c_size this (objs w' ! cp) w w'" by (rule DeepCopy_body_seeded)
qed

lemma batched_more:
  "GemmParams.more x = GemmParams.more (y :: 'v GemmStridedBatchedParams) \<Longrightarrow>
   stride_a x = stride_a y \<and> stride_b x = stride_b y \<and> stride_c x = stride_c y \<and>
   batch x = batch y"
  by (cases x, cases y) simp

text \<open>
  Claim C8. Whatever \<^verbatim>\<open>DeepCopy\<close> returns, and also when it throws, every host
  object that existed before the call (the receiver among them, when it is one) and
  every byte that was mapped before the call (the buffers the receiver borrows among
  them) is unchanged, and no pointer has been released. When it returns, the result
  points to a new object whose transpose characters, dimensions, leading dimensions
  and scalars (and strides and batch count, for a batched descriptor) are the
  receiver's, and whose output buffer is a fresh block of \<^verbatim>\<open>GetSizeC()\<close> bytes that
  holds what the receiver's output buffer held, once the copy ordered on the stream is
  done. It does return when the device is known, the device has room for the blocks
  and the receiver's output buffer is mapped.
\<close>

theorem DeepCopy_frame:
  "(GemmParams_DeepCopy T dup this w = (r, w') \<longrightarrow>
      untouched w w' \<and>
      (\<forall>cp. r = Inr cp \<longrightarrow>
         cp = length (objs w) \<and> length (objs w') = Suc (length (objs w)) \<and>
         same_shape (objs w' ! cp) this \<and>
         seeded_output (GemmParams_GetSizeC T this) this (objs w' ! cp) w w')) \<and>
   (GemmStridedBatchedParams_DeepCopy T dup' this' v = (r', v') \<longrightarrow>
      untouched v v' \<and>
      (\<forall>cp. r' = Inr cp \<longrightarrow>
         cp = length (objs v) \<and> length (objs v') = Suc (length (objs v)) \<and>
         same_shape (objs v' ! cp) this' \<and>
         stride_a (objs v' ! cp) = stride_a this' \<and> stride_b (objs v' ! cp) = stride_b this' \<and>
         stride_c (objs v' ! cp) = stride_c this' \<and> batch (objs v' ! cp) = batch this' \<and>
         seeded_output (GemmStridedBatchedParams_GetSizeC T this') this' (objs v' ! cp) v v')) \<and>
   (device w \<noteq> None \<and>
    length (mem w) + unat (GemmParams_GetSizeC T this) +
      (if dup then unat (GemmParams_GetSizeA T this) + unat (GemmParams_GetSizeB T this) else 0)
      \<le> capacity w \<and>
    c this + unat (GemmParams_GetSizeC T this) \<le> length (mem w) \<longrightarrow>
    (\<exists>cp w1. GemmParams_DeepCopy T dup this w = (Inr cp, w1))) \<and>
   (device v \<noteq> None \<and>
    length (mem v) + unat (GemmStridedBatchedParams_GetSizeC T this') +
      (if dup' then unat (GemmStridedBatchedParams_GetSizeA T this') +
                    unat (GemmStridedBatchedParams_GetSizeB T this') else 0)
      \<le> capacity v \<and>
    c this' + unat (GemmStridedBatchedParams_GetSizeC T this') \<le> length (mem v) \<longrightarrow>
    (\<exists>cp v1. GemmStridedBatchedParams_DeepCopy T dup' this' v = (Inr cp, v1)))"
proof -
  have ret_dense: "device w \<noteq> None \<and>
    length (mem w) + unat (GemmParams_GetSizeC T this) +
      (if dup then unat (GemmParams_GetSizeA T this) + unat (GemmParams_GetSizeB T this) else 0)
      \<le> capacity w \<and>
    c this + unat (GemmParams_GetSizeC T this) \<le> length (mem w) \<longrightarrow>
    (\<exists>cp w1. GemmParams_DeepCopy T dup this w = (Inr cp, w1))"
    unfolding GemmParams_DeepCopy_def using DeepCopy_body_returns by blast
  have ret_batched: "device v \<noteq> None \<and>
    length (mem v) + unat (GemmStridedBatchedParams_GetSizeC T this') +
      (if dup' then unat (GemmStridedBatchedParams_GetSizeA T this') +
                    unat (GemmStridedBatchedParams_GetSizeB T this') else 0)
      \<le> capacity v \<and>
    c this' + unat (GemmStridedBatchedParams_GetSizeC T this') \<le> length (mem v) \<longrightarrow>
    (\<exists>cp v1. GemmStridedBatchedParams_DeepCopy T dup' this' v = (Inr cp, v1))"
    unfolding GemmStridedBatchedParams_DeepCopy_def using DeepCopy_body_returns by blast
  have dense: "GemmParams_DeepCopy T dup this w = (r, w') \<longrightarrow>
      untouched w w' \<and>
      (\<forall>cp. r = Inr cp \<longrightarrow>
         cp = length (objs w) \<and> length (objs w') = Suc (length (objs w)) \<and>
         same_shape (objs w' ! cp) this \<and>
         seeded_output (GemmParams_GetSizeC T this) this (objs w' ! cp) w w')"
    unfolding GemmParams_DeepCopy_def
    using DeepCopy_body_summary [of "GemmParams_GetSizeC T this" "GemmParams_GetSizeA T this"
        "GemmParams_GetSizeB T this" dup this w r w']
    by blast
  have batched: "GemmStridedBatchedParams_DeepCopy T dup' this' v = (r', v') \<longrightarrow>
      untouched v v' \<and>
      (\<forall>cp. r' = Inr cp \<longrightarrow>
         cp = length (objs v) \<and> length (objs v') = Suc (length (objs v)) \<and>
         same_shape (objs v' ! cp) this' \<and>
         stride_a (objs v' ! cp) = stride_a this' \<and> stride_b (objs v' ! cp) = stride_b this' \<and>
         stride_c (objs v' ! cp) = stride_c this' \<and> batch (objs v' ! cp) = batch this' \<and>
         seeded_output (GemmStridedBatchedParams_GetSizeC T this') this' (objs v' ! cp) v v')"
    unfolding GemmStridedBatchedParams_DeepCopy_def
    using DeepCopy_body_summary [of "GemmStridedBatchedParams_GetSizeC T this'"
        "GemmStridedBatchedParams_GetSizeA T this'" "GemmStridedBatchedParams_GetSizeB T this'"
        dup' this' v r' v'] batched_more
    by blast
  from dense batched ret_dense ret_batched show ?thesis by blast
qed

theorem DeepCopy_frame_witness:
  "(let (r, w1) = GemmParams_DeepCopy float32 True (unit_dense 0) example_world;
        (r', v1) = GemmStridedBatchedParams_DeepCopy float32 False (unit_batched 0 2)
                     example_world_batched
    in r = Inr 0 \<and> r' = Inr 0 \<and>
       untouched example_world w1 \<and> untouched example_world_batched v1 \<and>
       same_shape (objs w1 ! 0) (unit_dense 0) \<and> same_shape (objs v1 ! 0) (unit_batched 0 2) \<and>
       seeded_output (GemmParams_GetSizeC float32 (unit_dense 0)) (unit_dense 0)
         (objs w1 ! 0) example_world w1 \<and>
       seeded_output (GemmStridedBatchedParams_GetSizeC float32 (unit_batched 0 2))
         (unit_batched 0 2) (objs v1 ! 0) example_world_batched v1 \<and>
       device example_world \<noteq> None \<and> device example_world_batched \<noteq> None \<and>
       c (unit_dense 0) + unat (GemmParams_GetSizeC float32 (unit_dense 0))
         \<le> length (mem example_world) \<and>
       c (objs w1 ! 0) = 8 \<and> read_bytes w1 8 4 = Some [0, 0, 0, 0] \<and>
       c (objs v1 ! 0) = 8 \<and> read_bytes v1 8 4 = Some [0, 0, 0, 0])"
proof -
  let ?w1 = "example_world
        \<lparr>objs := [(unit_dense 0)\<lparr>c := 8, a := 12, b := 16, duplicate_inputs := True\<rparr>],
         mem := [0, 0, 0, 0, 0, 0, 224, 61, 0, 0, 0, 0, 0, 0, 0, 0, 0, 0, 0, 0],
         live := [(16, 4), (12, 4), (8, 4)]\<rparr>"
  let ?v1 = "example_world_batched
        \<lparr>objs := [(unit_batched 0 2)\<lparr>c := 8\<rparr>],
         mem := [0, 0, 0, 0, 0, 0, 224, 61, 0, 0, 0, 0], live := [(8, 4)]\<rparr>"
  note t = DeepCopy_frame [of float32 True "unit_dense 0" example_world "Inr 0" ?w1
      False "unit_batched 0 2" example_world_batched "Inr 0" ?v1]
  from t ex_DeepCopy_true ex_DeepCopy_false_batched
  have p: "untouched example_world ?w1 \<and> untouched example_world_batched ?v1 \<and>
       same_shape (objs ?w1 ! 0) (unit_dense 0) \<and> same_shape (objs ?v1 ! 0) (unit_batched 0 2) \<and>
       seeded_output (GemmParams_GetSizeC float32 (unit_dense 0)) (unit_dense 0)
         (objs ?w1 ! 0) example_world ?w1 \<and>
       seeded_output (GemmStridedBatchedParams_GetSizeC float32 (unit_batched 0 2))
         (unit_batched 0 2) (objs ?v1 ! 0) example_world_batched ?v1"
    by simp
  have q: "device example_world \<noteq> None \<and> device example_world_batched \<noteq> None \<and>
       c (unit_dense 0) + unat (GemmParams_GetSizeC float32 (unit_dense 0))
         \<le> length (mem example_world) \<and>
       c (objs ?w1 ! 0) = 8 \<and> read_bytes ?w1 8 4 = Some [0, 0, 0, 0] \<and>
       c (objs ?v1 ! 0) = 8 \<and> read_bytes ?v1 8 4 = Some [0, 0, 0, 0]"
    by (simp add: GemmParams_GetSizeC_def float32_def example_world_def
        example_world_batched_def unit_dense_def read_bytes_def slice_def)
  show ?thesis
    unfolding ex_DeepCopy_true ex_DeepCopy_false_batched Let_def prod.case
    using p q by blast
qed

lemma DeepCopy_body_after_DeepCopy_true:
  assumes first: "DeepCopy_body c_size a_size b_size True this w = (Inr p1, w1)"
    and second: "DeepCopy_body c_size' a_size' b_size' False (objs w1 ! p1) w1 = (Inr p2, w2)"
  shows "duplicate_inputs (objs w2 ! p2) \<and> a (objs w2 ! p2) = a (objs w1 ! p1) \<and>
     b (objs w2 ! p2) = b (objs w1 ! p1)"
  using DeepCopy_body_flag [OF first] DeepCopy_body_flag [OF second] by simp

lemma DeepCopy_body_borrowing:
  assumes "\<not> duplicate_inputs this"
    and "DeepCopy_body c_size a_size b_size dup this w = (Inr cp, w')"
  shows "duplicate_inputs (objs w' ! cp) = dup"
  using DeepCopy_body_flag [OF assms(2)] assms(1) by simp

text \<open>
  Claim C1 does not hold of the code. \<^verbatim>\<open>*copy = *this\<close> copies \<^verbatim>\<open>duplicate_inputs_\<close>
  with the other members, and \<^verbatim>\<open>DeepCopy\<close> only ever sets it: by \<open>DeepCopy_body_flag\<close>
  the flag of the copy is set exactly when \<^verbatim>\<open>duplicate_inputs\<close> is true or the flag of
  the receiver is set. On a receiver that borrows its inputs the flag is as the claim
  has it (\<open>DeepCopy_body_borrowing\<close>). Below, \<^verbatim>\<open>DeepCopy(false)\<close> on the result of
  \<^verbatim>\<open>DeepCopy(true)\<close>: the second copy has the flag set and the input pointers of the
  first, and \<^verbatim>\<open>Delete\<close> on both passes these two pointers to \<^verbatim>\<open>raw_delete\<close> twice.
\<close>

theorem DeepCopy_false_keeps_flag:
  "(case GemmParams_DeepCopy float32 True (unit_dense 0) example_world of
      (Inl e, w1) \<Rightarrow> False
    | (Inr p1, w1) \<Rightarrow>
        (case GemmParams_DeepCopy float32 False (objs w1 ! p1) w1 of
           (Inl e, w2) \<Rightarrow> False
         | (Inr p2, w2) \<Rightarrow>
             duplicate_inputs (objs w2 ! p2) \<and> a (objs w2 ! p2) = a (objs w1 ! p1) \<and>
             b (objs w2 ! p2) = b (objs w1 ! p1) \<and>
             released (GemmParams_Delete (objs w1 ! p1) (GemmParams_Delete (objs w2 ! p2) w2)) =
               [c (objs w2 ! p2), a (objs w1 ! p1), b (objs w1 ! p1),
                c (objs w1 ! p1), a (objs w1 ! p1), b (objs w1 ! p1)]))"
proof -
  let ?d1 = "(unit_dense 0)\<lparr>c := 8, a := 12, b := 16, duplicate_inputs := True\<rparr>"
  let ?w1 = "example_world\<lparr>objs := [?d1], mem := [0, 0, 0, 0, 0, 0, 224, 61, 0, 0, 0, 0, 0, 0, 0, 0, 0, 0, 0, 0],
      live := [(16, 4), (12, 4), (8, 4)]\<rparr>"
  have first: "DeepCopy_body 4 4 4 True (unit_dense 0) example_world = (Inr 0, ?w1)"
    by (rule ex_body_true)
  have d1: "objs ?w1 ! 0 = ?d1" by simp
  have sz: "GemmParams_GetSizeC float32 ?d1 = 4"
    "GemmParams_GetSizeA float32 ?d1 = 4" "GemmParams_GetSizeB float32 ?d1 = 4"
    by (simp_all add: GemmParams_GetSizeA_def GemmParams_GetSizeB_def GemmParams_GetSizeC_def
        float32_def unit_dense_def)
  have "\<exists>p2 w2. DeepCopy_body 4 4 4 False ?d1 ?w1 = (Inr p2, w2)"
    by (rule DeepCopy_body_returns) (simp_all add: example_world_def unit_dense_def)
  then obtain p2 w2 where second: "DeepCopy_body 4 4 4 False ?d1 ?w1 = (Inr p2, w2)" by blast
  from second d1 have second': "DeepCopy_body 4 4 4 False (objs ?w1 ! 0) ?w1 = (Inr p2, w2)"
    by simp
  note f = DeepCopy_body_after_DeepCopy_true [OF first second']
  from DeepCopy_body_Inr [OF second] have rel: "released w2 = []"
    by (simp add: example_world_def)
  have g1: "GemmParams_DeepCopy float32 True (unit_dense 0) example_world = (Inr 0, ?w1)"
    by (rule ex_DeepCopy_true)
  have g2: "GemmParams_DeepCopy float32 False (objs ?w1 ! 0) ?w1 = (Inr p2, w2)"
    unfolding GemmParams_DeepCopy_def d1 sz by (rule second)
  have final: "duplicate_inputs (objs w2 ! p2) \<and> a (objs w2 ! p2) = a (objs ?w1 ! 0) \<and>
     b (objs w2 ! p2) = b (objs ?w1 ! 0) \<and>
     released (GemmParams_Delete (objs ?w1 ! 0) (GemmParams_Delete (objs w2 ! p2) w2)) =
       [c (objs w2 ! p2), a (objs ?w1 ! 0), b (objs ?w1 ! 0),
        c (objs ?w1 ! 0), a (objs ?w1 ! 0), b (objs ?w1 ! 0)]"
    using f rel by (simp add: GemmParams_Delete_def Delete_body_released)
  show ?thesis
    unfolding g1 g2 prod.case sum.case by (rule final)
qed

section \<open>DeepCopy, then NumericalCheck\<close>

lemma allclose_same: "0 \<le> rtol \<Longrightarrow> 0 \<le> atol \<Longrightarrow> allclose xs xs rtol atol"
  by (simp add: allclose_def list_all2_same)

lemma tolerances_nonneg: "\<forall>x\<in>set atols. 0 \<le> x" "\<forall>x\<in>set rtols. 0 \<le> x"
  by (simp_all add: atols_def rtols_def)

lemma last_product: "last (List.product atols rtols) = (1 / 100000, 1 / 100000)"
  by (simp add: atols_def rtols_def)

lemma verdict_sweep_same: "verdict (sweep (allclose xs xs)) = (OK, Some (1 / 100000, 1 / 100000))"
proof -
  let ?P = "\<lambda>xy. allclose xs xs (snd xy) (fst xy)"
  have all: "\<forall>xy\<in>set (List.product atols rtols). ?P xy"
    using tolerances_nonneg by (auto intro: allclose_same)
  then have f: "filter ?P (List.product atols rtols) = List.product atols rtols"
    by (simp add: filter_id_conv)
  have "1 / 10 \<in> set atols" "1 / 10 \<in> set rtols" by (simp_all add: atols_def rtols_def)
  with tolerances_nonneg have "\<not> (\<forall>atol\<in>set atols. \<forall>rtol\<in>set rtols. \<not> allclose xs xs rtol atol)"
    using allclose_same by blast
  then have "verdict (sweep (allclose xs xs)) = (OK, Some (last (filter ?P (List.product atols rtols))))"
    unfolding verdict_sweep by (rule if_not_P)
  with f last_product show ?thesis by simp
qed

lemma copy_then_check_body:
  assumes ok: "DeepCopy_body c_size a_size b_size dup this w = (Inr cp, w')"
    and src: "c this + unat c_size \<le> length (mem w)"
    and cnt: "0 \<le> sint cnt"
    and sz: "nat (sint cnt) * unat (sizeof T) = unat c_size"
  shows "NumericalCheck_body T cnt (c this) (c (objs w' ! cp)) w' =
     Inr (OK, Some (1 / 100000, 1 / 100000))"
proof -
  let ?bs = "slice (mem w) (c this) (unat c_size)"
  let ?xs = "map (\<lambda>i. to_float T (slice ?bs (i * unat (sizeof T)) (unat (sizeof T))))
      [0..<nat (sint cnt)]"
  from DeepCopy_body_seed [OF ok src]
  have r1: "read_bytes w' (c this) (unat c_size) = Some ?bs"
    and r2: "read_bytes w' (c (objs w' ! cp)) (unat c_size) = Some ?bs" by simp_all
  from cnt sz r1 have f1: "from_blob_to_float T w' (c this) cnt = Inr ?xs"
    by (simp add: from_blob_to_float_def)
  from cnt sz r2 have f2: "from_blob_to_float T w' (c (objs w' ! cp)) cnt = Inr ?xs"
    by (simp add: from_blob_to_float_def)
  from f1 f2 have "NumericalCheck_body T cnt (c this) (c (objs w' ! cp)) w' =
      Inr (verdict (sweep (allclose ?xs ?xs)))"
    by (rule NumericalCheck_body_Inr)
  then show ?thesis by (simp only: verdict_sweep_same)
qed

lemma dense_copy_then_check:
  assumes "GemmParams_DeepCopy T dup this w = (Inr cp, w')"
    and "c this + unat (GemmParams_GetSizeC T this) \<le> length (mem w)"
    and "0 \<le> sint (ldc this * n this)"
    and "nat (sint (ldc this * n this)) * unat (sizeof T) = unat (GemmParams_GetSizeC T this)"
  shows "GemmParams_NumericalCheck T this (objs w' ! cp) w' =
     Inr (OK, Some (1 / 100000, 1 / 100000))"
  using assms unfolding GemmParams_DeepCopy_def GemmParams_NumericalCheck_def
  by (rule copy_then_check_body)

lemma batched_copy_then_check:
  assumes "GemmStridedBatchedParams_DeepCopy T dup this w = (Inr cp, w')"
    and "c this + unat (GemmStridedBatchedParams_GetSizeC T this) \<le> length (mem w)"
    and "0 \<le> sint (batch this * stride_c this)"
    and "nat (sint (batch this * stride_c this)) * unat (sizeof T) =
      unat (GemmStridedBatchedParams_GetSizeC T this)"
  shows "GemmStridedBatchedParams_NumericalCheck T this (objs w' ! cp) w' =
     Inr (OK, Some (1 / 100000, 1 / 100000))"
  using assms
  unfolding GemmStridedBatchedParams_DeepCopy_def GemmStridedBatchedParams_NumericalCheck_def
  by (rule copy_then_check_body)

text \<open>
  Claim C9 holds for a dense descriptor (\<open>dense_copy_then_check\<close>), and for a batched
  one whose \<open>batch * stride_c\<close> elements are the \<^verbatim>\<open>GetSizeC()\<close> bytes
  (\<open>batched_copy_then_check\<close>). It does not hold of the code for a batched descriptor
  with \<open>stride_c\<close> above \<open>ldc * n\<close>: \<^verbatim>\<open>DeepCopy\<close> allocates and copies
  \<open>sizeof T * ldc * n * batch\<close> bytes, and \<^verbatim>\<open>NumericalCheck\<close> reads \<open>batch * stride_c\<close>
  elements from both buffers. Below, one batch with \<open>ldc = n = 1\<close> and \<open>stride_c = 2\<close>:
  the copy has one element and the check reads two, so it runs off the mapped memory;
  and once one more byte has been allocated behind the copy it compares the second
  element of the original with that byte and returns \<^verbatim>\<open>FAIL\<close>.
\<close>

theorem batched_copy_check_mismatch:
  "(case GemmStridedBatchedParams_DeepCopy float32 False (unit_batched 0 2)
           example_world_batched of
      (Inl e, w1) \<Rightarrow> False
    | (Inr cp, w1) \<Rightarrow>
        unat (GemmStridedBatchedParams_GetSizeC float32 (unit_batched 0 2)) = 4 \<and>
        nat (sint (batch (unit_batched 0 2) * stride_c (unit_batched 0 2))) = 2 \<and>
        GemmStridedBatchedParams_NumericalCheck float32 (unit_batched 0 2)
          (objs w1 ! cp) w1 = Inl DeviceError \<and>
        (case raw_alloc 4 w1 of
           (Inl e, w2) \<Rightarrow> False
         | (Inr p, w2) \<Rightarrow>
             GemmStridedBatchedParams_NumericalCheck float32 (unit_batched 0 2)
               (objs w1 ! cp) w2 = Inr (FAIL, None)))"
proof -
  let ?v1 = "example_world_batched
        \<lparr>objs := [(unit_batched 0 2)\<lparr>c := 8\<rparr>],
         mem := [0, 0, 0, 0, 0, 0, 224, 61, 0, 0, 0, 0], live := [(8, 4)]\<rparr>"
  let ?v2 = "?v1\<lparr>mem := [0, 0, 0, 0, 0, 0, 224, 61, 0, 0, 0, 0, 0, 0, 0, 0],
      live := [(12, 4), (8, 4)]\<rparr>"
  have g1: "GemmStridedBatchedParams_DeepCopy float32 False (unit_batched 0 2)
      example_world_batched = (Inr 0, ?v1)"
    by (rule ex_DeepCopy_false_batched)
  have g2: "raw_alloc 4 ?v1 = (Inr 12, ?v2)"
    by (simp add: raw_alloc_def example_world_batched_def upt_rec)
  have s1: "unat (GemmStridedBatchedParams_GetSizeC float32 (unit_batched 0 2)) = 4"
    unfolding ex_sizes by simp
  have s2: "nat (sint (batch (unit_batched 0 2) * stride_c (unit_batched 0 2))) = 2"
    by (simp add: unit_batched_def)
  have ref1: "from_blob_to_float float32 ?v1 0 2 = Inr [0, 7 / 64]"
    by (simp add: from_blob_to_float_def float32_def float32_value_def example_world_batched_def
        read_bytes_def slice_def le_value_def upt_rec)
  have oth1: "from_blob_to_float float32 ?v1 8 2 = Inl DeviceError"
    by (simp add: from_blob_to_float_def float32_def example_world_batched_def read_bytes_def)
  have ref2: "from_blob_to_float float32 ?v2 0 2 = Inr [0, 7 / 64]"
    by (simp add: from_blob_to_float_def float32_def float32_value_def example_world_batched_def
        read_bytes_def slice_def le_value_def upt_rec)
  have oth2: "from_blob_to_float float32 ?v2 8 2 = Inr [0, 0]"
    by (simp add: from_blob_to_float_def float32_def float32_value_def example_world_batched_def
        read_bytes_def slice_def le_value_def upt_rec)
  have sw: "sweep (allclose [0, 7 / 64] [0, 0]) = (1, 1)"
    by (simp add: sweep_def atols_def rtols_def allclose_def)
  have c1: "GemmStridedBatchedParams_NumericalCheck float32 (unit_batched 0 2)
      (objs ?v1 ! 0) ?v1 = Inl DeviceError"
    using ref1 oth1
    by (simp add: GemmStridedBatchedParams_NumericalCheck_def NumericalCheck_body_def
        unit_batched_def)
  have c2: "GemmStridedBatchedParams_NumericalCheck float32 (unit_batched 0 2)
      (objs ?v1 ! 0) ?v2 = Inr (FAIL, None)"
    using ref2 oth2
    by (simp add: GemmStridedBatchedParams_NumericalCheck_def NumericalCheck_body_def
        unit_batched_def sw verdict_def)
  show ?thesis
    unfolding g1 prod.case sum.case g2 using s1 s2 c1 c2 by simp
qed

end
